theory Spec2Isabelle
  imports Complex_Main
begin

section \<open>The SDN BLE control plane bridge (sdn\_ble\_bridge.py)\<close>

text \<open>
  The bridge runs on one cooperative scheduler. Its functions are embedded as state
  transformers over a record that holds the controller object, the global run flag and
  the history of every effect on the outside world. A function returns a pair: either
  the exception it raised (\<open>Inl\<close>) or its value (\<open>Inr\<close>), and the new state.

  Library calls (the UTF-8 codec, the json module, subprocess.run, the BLE client) are
  not part of the repository; they are fields of an environment record, and every
  theorem holds for all environments.

  Python strings are \<open>string\<close>; a character stands for a code point below 256. The
  texts of log records are kept in ASCII: the accented letters, pictographs, arrows,
  dashes and box-drawing characters of the source's messages are left out or replaced
  by their ASCII look-alikes.
\<close>

subsection \<open>Values\<close>

text \<open>A byte string: each character is one byte.\<close>

type_synonym bytes = "char list"

datatype pyfloat = Finite real | NaN | PosInf | NegInf

text \<open>
  What json.loads returns. A dict is the list of its items in insertion order; the keys
  of a dict built by json.loads are distinct.
\<close>

datatype json =
    JNull
  | JBool bool
  | JInt int
  | JFloat pyfloat
  | JString string
  | JArray "json list"
  | JObject "(string \<times> json) list"

text \<open>An exception: its class name and the text \<open>str(e)\<close>.\<close>

datatype exn = Exn (exn_class: string) (exn_str: string)

fun type_name :: "json \<Rightarrow> string" where
  "type_name JNull = ''NoneType''"
| "type_name (JBool _) = ''bool''"
| "type_name (JInt _) = ''int''"
| "type_name (JFloat _) = ''float''"
| "type_name (JString _) = ''str''"
| "type_name (JArray _) = ''list''"
| "type_name (JObject _) = ''dict''"

text \<open>
  \<open>v.get(key, default)\<close>: only a dict has the method; on any other value the
  attribute lookup raises AttributeError.
\<close>

definition quoted :: "string \<Rightarrow> string" where
  "quoted s = CHR 0x27 # s @ [CHR 0x27]"

fun dict_get :: "json \<Rightarrow> string \<Rightarrow> json \<Rightarrow> exn + json" where
  "dict_get (JObject kvs) key dflt =
     Inr (case map_of kvs key of None \<Rightarrow> dflt | Some v \<Rightarrow> v)"
| "dict_get v key dflt =
     Inl (Exn ''AttributeError''
       (quoted (type_name v) @ '' object has no attribute '' @ quoted ''get''))"

subsection \<open>str.split() and str.strip()\<close>

definition isspace :: "char \<Rightarrow> bool" where
  "isspace c = (c \<in> {CHR 0x09, CHR 0x0A, CHR 0x0B, CHR 0x0C, CHR 0x0D, CHR 0x1C, CHR 0x1D,
     CHR 0x1E, CHR 0x1F, CHR '' '', CHR 0x85, CHR 0xA0})"

text \<open>\<open>split_from w cs\<close>: \<open>w\<close> is the word read so far, \<open>cs\<close> the rest of the text.\<close>

fun split_from :: "string \<Rightarrow> string \<Rightarrow> string list" where
  "split_from w [] = (if w = [] then [] else [w])"
| "split_from w (c # cs) =
     (if isspace c then (if w = [] then split_from [] cs else w # split_from [] cs)
      else split_from (w @ [c]) cs)"

definition str_split :: "string \<Rightarrow> string list" where
  "str_split s = split_from [] s"

definition str_strip :: "string \<Rightarrow> string" where
  "str_strip s = rev (dropWhile isspace (rev (dropWhile isspace s)))"

subsection \<open>Effects and the environment\<close>

datatype level = INFO | WARNING | ERROR

text \<open>
  The effects the bridge has on the outside world, in the order they happen:
  a log record, a call of subprocess.run (argument vector, timeout in seconds),
  a blocking time.sleep, a GATT write (characteristic, payload, response flag),
  a cooperative asyncio.sleep.
\<close>

datatype event =
    Log level string
  | SubprocessRun "string list" rat
  | TimeSleep rat
  | GattWrite string bytes bool
  | AsyncioSleep rat

text \<open>
  What the scheduler may run while the main coroutine is suspended at an await:
  a notification on the radio-request characteristic, a notification on the response
  characteristic, or a SIGINT/SIGTERM.
\<close>

datatype arrival = RadioRequestNotify bytes | ResponseNotify bytes | Signal

record completed_process =
  returncode :: int
  stdout :: string

text \<open>
  The library and the outside world. The calls whose answer depends on the moment take
  the history of effects so far, so two calls of one run may answer differently.
  \<^item> \<open>bytes_decode\<close>: \<open>data.decode("utf-8")\<close>;
  \<^item> \<open>json_loads\<close>: \<open>json.loads\<close>;
  \<^item> \<open>str_of_value\<close>: \<open>str(v)\<close> of a value that is not a string, as an f-string formats it;
  \<^item> \<open>json_dumps\<close>, \<open>str_encode\<close>: \<open>json.dumps(command).encode("utf-8")\<close>;
  \<^item> \<open>subprocess_run\<close>: \<open>subprocess.run(argv, capture_output=True, text=True, timeout=10)\<close>;
  \<^item> \<open>is_connected\<close>: the client's \<open>is_connected\<close> property;
  \<^item> \<open>write_gatt_char\<close>: the outcome of the client's write, \<open>Some e\<close> when it raises.
\<close>

record env =
  bytes_decode :: "bytes \<Rightarrow> exn + string"
  json_loads :: "string \<Rightarrow> exn + json"
  str_of_value :: "json \<Rightarrow> string"
  json_dumps :: "json \<Rightarrow> string"
  str_encode :: "string \<Rightarrow> bytes"
  subprocess_run :: "event list \<Rightarrow> string list \<Rightarrow> exn + completed_process"
  is_connected :: "event list \<Rightarrow> bool"
  write_gatt_char :: "event list \<Rightarrow> string \<Rightarrow> bytes \<Rightarrow> bool \<Rightarrow> exn option"

text \<open>
  The controller object (\<open>client\<close>, \<open>connected\<close>, \<open>pending_commands\<close>), the global
  \<open>running\<close>, the history of effects, and what is still to arrive: one batch per
  future suspension of the main coroutine.
\<close>

record state =
  client :: "string option"
  connected :: bool
  pending_commands :: "json list"
  running :: bool
  trace :: "event list"
  inbox :: "arrival list list"

definition emit :: "event \<Rightarrow> state \<Rightarrow> state" where
  "emit ev s = s\<lparr>trace := trace s @ [ev]\<rparr>"

definition log_info :: "string \<Rightarrow> state \<Rightarrow> state" where
  "log_info msg s = emit (Log INFO msg) s"

definition log_warning :: "string \<Rightarrow> state \<Rightarrow> state" where
  "log_warning msg s = emit (Log WARNING msg) s"

definition log_error :: "string \<Rightarrow> state \<Rightarrow> state" where
  "log_error msg s = emit (Log ERROR msg) s"

definition time_sleep :: "rat \<Rightarrow> state \<Rightarrow> state" where
  "time_sleep secs s = emit (TimeSleep secs) s"

text \<open>\<open>{v}\<close> inside an f-string.\<close>

definition py_str :: "env \<Rightarrow> json \<Rightarrow> string" where
  "py_str E v = (case v of JString s \<Rightarrow> s | _ \<Rightarrow> str_of_value E v)"

subsection \<open>Configuration\<close>

definition SDN_CMD_WRITE_UUID :: string where
  "SDN_CMD_WRITE_UUID = ''a1b2c3d4-0001-7890-abcd-ef1234567890''"

definition ADB_CMD :: string where
  "ADB_CMD = ''adb''"

subsection \<open>ADB helpers\<close>

text \<open>
  \<open>adb_exec\<close>: the command line is built and logged, then subprocess.run is called
  inside the try block. TimeoutExpired and every other Exception are caught.
\<close>

definition adb_exec :: "env \<Rightarrow> string \<Rightarrow> state \<Rightarrow> (exn + bool \<times> string) \<times> state" where
  "adb_exec E command s0 =
     (let full_cmd = ADB_CMD @ '' shell '' @ command;
          s1 = log_info (''ADB exec: '' @ full_cmd) s0;
          s2 = emit (SubprocessRun (str_split full_cmd) 10) s1
      in case subprocess_run E (trace s1) (str_split full_cmd) of
           Inr result \<Rightarrow>
             (let output = str_strip (stdout result);
                  success = (returncode result = 0);
                  s3 = (if output \<noteq> [] then log_info (''ADB output: '' @ output) s2 else s2)
              in (Inr (success, output), s3))
         | Inl e \<Rightarrow>
             if exn_class e = ''TimeoutExpired''
             then (Inr (False, ''timeout''), log_error ''ADB timeout'' s2)
             else (Inr (False, exn_str e), log_error (''ADB error: '' @ exn_str e) s2))"

text \<open>
  \<open>handle_radio_request\<close>: the if/elif chain over the action. The arguments are
  whatever the request dict held, so they are values, not only strings; a value that
  is not a string equals none of the four literals. \<open>request_logged\<close> is the log line
  the function starts with.
\<close>

definition request_logged :: "env \<Rightarrow> json \<Rightarrow> json \<Rightarrow> state \<Rightarrow> state" where
  "request_logged E action reason s =
     log_info (''Radio request: action='' @ py_str E action @ '', reason=''
       @ py_str E reason) s"

definition handle_radio_request :: "env \<Rightarrow> json \<Rightarrow> json \<Rightarrow> state \<Rightarrow> (exn + json) \<times> state" where
  "handle_radio_request E action reason s0 =
     (let s1 = request_logged E action reason s0
      in
      if action = JString ''enable_bt'' then
        (case adb_exec E ''svc bluetooth enable'' s1 of
           (Inl e, s2) \<Rightarrow> (Inl e, s2)
         | (Inr (success, _), s2) \<Rightarrow>
             if success then
               (Inr (JObject [(''action'', JString ''BT_READY''),
                              (''sessionId'', JString ''ble-bridge''),
                              (''reason'', JString ''ADB enable_bt OK'')]),
                time_sleep 2 s2)
             else
               (Inr (JObject [(''action'', JString ''BT_READY''),
                              (''sessionId'', JString ''ble-bridge''),
                              (''reason'', JString ''ADB enable_bt FAILED'')]),
                s2))
      else if action = JString ''disable_bt'' then
        (case adb_exec E ''svc bluetooth disable'' s1 of
           (Inl e, s2) \<Rightarrow> (Inl e, s2)
         | (Inr (success, _), s2) \<Rightarrow>
             (Inr (JObject [(''action'', JString ''BT_DISABLED''),
                            (''sessionId'', JString ''ble-bridge''),
                            (''reason'', JString (''ADB disable_bt ''
                               @ (if success then ''OK'' else ''FAILED'')))]),
              s2))
      else if action = JString ''enable_wifi'' then
        (case adb_exec E ''svc wifi enable'' s1 of
           (Inl e, s2) \<Rightarrow> (Inl e, s2)
         | (Inr (success, _), s2) \<Rightarrow>
             if success then
               (Inr (JObject [(''action'', JString ''WIFI_READY''),
                              (''sessionId'', JString ''ble-bridge''),
                              (''reason'', JString ''ADB enable_wifi OK'')]),
                time_sleep 3 s2)
             else
               (Inr (JObject [(''action'', JString ''WIFI_READY''),
                              (''sessionId'', JString ''ble-bridge''),
                              (''reason'', JString ''ADB enable_wifi FAILED'')]),
                s2))
      else if action = JString ''disable_wifi'' then
        (case adb_exec E ''svc wifi disable'' s1 of
           (Inl e, s2) \<Rightarrow> (Inl e, s2)
         | (Inr (success, _), s2) \<Rightarrow>
             (Inr (JObject [(''action'', JString ''WIFI_DISABLED''),
                            (''sessionId'', JString ''ble-bridge''),
                            (''reason'', JString (''ADB disable_wifi ''
                               @ (if success then ''OK'' else ''FAILED'')))]),
              s2))
      else
        (Inr (JObject [(''action'', JString ''UNKNOWN''),
                       (''sessionId'', JString ''ble-bridge''),
                       (''reason'', JString (''Unknown action: '' @ py_str E action))]),
         log_warning (''Radio request desconocido: '' @ py_str E action) s1))"

subsection \<open>The signal handler and the notification callbacks\<close>

definition signal_handler :: "state \<Rightarrow> state" where
  "signal_handler s = (log_info ''Senal recibida, cerrando...'' s)\<lparr>running := False\<rparr>"

text \<open>\<open>_on_response_notify\<close>: the telemetry callback logs the first 200 characters.\<close>

definition on_response_notify :: "env \<Rightarrow> bytes \<Rightarrow> state \<Rightarrow> (exn + unit) \<times> state" where
  "on_response_notify E data s0 =
     (case bytes_decode E data of
        Inr json_str \<Rightarrow> (Inr (), log_info (''Response: '' @ take 200 json_str) s0)
      | Inl e \<Rightarrow> (Inr (), log_error (''Error parseando response: '' @ exn_str e) s0))"

text \<open>
  \<open>_on_radio_request_notify\<close>: the whole body is one try block; \<open>except_handler\<close> is
  its \<open>except Exception\<close> clause, which logs and returns.
\<close>

definition except_handler :: "exn \<Rightarrow> state \<Rightarrow> (exn + unit) \<times> state" where
  "except_handler e s = (Inr (), log_error (''Error procesando radio request: '' @ exn_str e) s)"

definition on_radio_request_notify :: "env \<Rightarrow> bytes \<Rightarrow> state \<Rightarrow> (exn + unit) \<times> state" where
  "on_radio_request_notify E data s0 =
     (case bytes_decode E data of
        Inl e \<Rightarrow> except_handler e s0
      | Inr json_str \<Rightarrow>
          (let s1 = log_info (''Radio Request: '' @ json_str) s0 in
           case json_loads E json_str of
             Inl e \<Rightarrow> except_handler e s1
           | Inr request \<Rightarrow>
               (case dict_get request ''action'' (JString ''unknown'') of
                  Inl e \<Rightarrow> except_handler e s1
                | Inr action \<Rightarrow>
                    (case dict_get request ''reason'' (JString []) of
                       Inl e \<Rightarrow> except_handler e s1
                     | Inr reason \<Rightarrow>
                         (case handle_radio_request E action reason s1 of
                            (Inl e, s2) \<Rightarrow> except_handler e s2
                          | (Inr confirmation, s2) \<Rightarrow>
                              (Inr (), s2\<lparr>pending_commands :=
                                          pending_commands s2 @ [confirmation]\<rparr>))))))"

subsection \<open>Suspension of the main coroutine\<close>

text \<open>
  At an await that really suspends, the scheduler runs what arrived meanwhile: the
  callbacks subscribed in \<open>connect\<close> and the signal handler, each to completion.
\<close>

fun deliver :: "env \<Rightarrow> arrival \<Rightarrow> state \<Rightarrow> state" where
  "deliver E (RadioRequestNotify data) s = snd (on_radio_request_notify E data s)"
| "deliver E (ResponseNotify data) s = snd (on_response_notify E data s)"
| "deliver E Signal s = signal_handler s"

definition suspend :: "env \<Rightarrow> state \<Rightarrow> state" where
  "suspend E s =
     (case inbox s of
        [] \<Rightarrow> s
      | batch # later \<Rightarrow> fold (deliver E) batch (s\<lparr>inbox := later\<rparr>))"

definition asyncio_sleep :: "env \<Rightarrow> rat \<Rightarrow> state \<Rightarrow> state" where
  "asyncio_sleep E secs s = suspend E (emit (AsyncioSleep secs) s)"

subsection \<open>Sending and the main loop\<close>

text \<open>
  \<open>send_command\<close>: the guard returns before anything is awaited. The payload is built
  outside the try block; the write and the log line after it are inside.
\<close>

definition send_command :: "env \<Rightarrow> json \<Rightarrow> state \<Rightarrow> (exn + unit) \<times> state" where
  "send_command E command s0 =
     (if client s0 = None \<or> \<not> is_connected E (trace s0) then
        (Inr (), log_error ''No conectado - no se puede enviar comando'' s0)
      else
        (let json_bytes = str_encode E (json_dumps E command);
             s1 = suspend E (emit (GattWrite SDN_CMD_WRITE_UUID json_bytes True) s0)
         in case write_gatt_char E (trace s0) SDN_CMD_WRITE_UUID json_bytes True of
              Some e \<Rightarrow> (Inr (), log_error (''Error enviando comando: '' @ exn_str e) s1)
            | None \<Rightarrow>
                (case dict_get command ''action'' (JString ''unknown'') of
                   Inl e \<Rightarrow> (Inr (), log_error (''Error enviando comando: '' @ exn_str e) s1)
                 | Inr a \<Rightarrow> (Inr (), log_info (''-> Comando enviado: '' @ py_str E a) s1))))"

text \<open>
  The inner loop of \<open>run_loop\<close>:
  \<^verbatim>\<open>while self.pending_commands:
      cmd = self.pending_commands.pop(0)
      await self.send_command(cmd)\<close>
\<close>

definition arrivals_left :: "state \<Rightarrow> nat" where
  "arrivals_left s = sum_list (map length (inbox s))"

function drain_pending :: "env \<Rightarrow> state \<Rightarrow> (exn + unit) \<times> state" where
  "drain_pending E s =
     (case pending_commands s of
        [] \<Rightarrow> (Inr (), s)
      | cmd # rest \<Rightarrow>
          (case send_command E cmd (s\<lparr>pending_commands := rest\<rparr>) of
             (Inl e, s') \<Rightarrow> (Inl e, s')
           | (Inr u, s') \<Rightarrow> drain_pending E s'))"
  by pat_completeness auto

text \<open>
  \<open>run_loop\<close>: the outer loop runs until the stop flag is set or the connection drops,
  which may be never; the first argument bounds the number of rounds, and \<open>None\<close> means
  the loop was still running after that many.
\<close>

fun run_loop_rounds :: "nat \<Rightarrow> env \<Rightarrow> state \<Rightarrow> ((exn + unit) \<times> state) option" where
  "run_loop_rounds 0 E s = None"
| "run_loop_rounds (Suc n) E s =
     (if running s \<and> client s \<noteq> None \<and> is_connected E (trace s) then
        (case drain_pending E s of
           (Inl e, s1) \<Rightarrow> Some (Inl e, s1)
         | (Inr u, s1) \<Rightarrow> run_loop_rounds n E (asyncio_sleep E (1 / 2) s1))
      else Some (Inr (), log_info ''Loop terminado'' s))"

definition run_loop :: "nat \<Rightarrow> env \<Rightarrow> state \<Rightarrow> ((exn + unit) \<times> state) option" where
  "run_loop n E s =
     run_loop_rounds n E
       (log_info ''  Ctrl+C para salir''
         (log_info ''=== BLE Bridge activo - esperando radio-requests del telefono ==='' s))"

section \<open>Observations on a history\<close>

fun is_run :: "event \<Rightarrow> bool" where
  "is_run (SubprocessRun _ _) = True"
| "is_run _ = False"

definition executor_calls :: "event list \<Rightarrow> nat" where
  "executor_calls t = length (filter is_run t)"

fun sleep_of :: "event \<Rightarrow> rat list" where
  "sleep_of (TimeSleep d) = [d]"
| "sleep_of _ = []"

definition sleeps :: "event list \<Rightarrow> rat list" where
  "sleeps t = concat (map sleep_of t)"

fun write_of :: "event \<Rightarrow> bytes list" where
  "write_of (GattWrite _ payload _) = [payload]"
| "write_of _ = []"

definition gatt_writes :: "event list \<Rightarrow> bytes list" where
  "gatt_writes t = concat (map write_of t)"

text \<open>The bytes \<open>send_command\<close> writes for a command.\<close>

definition payload :: "env \<Rightarrow> json \<Rightarrow> bytes" where
  "payload E c = str_encode E (json_dumps E c)"

text \<open>The log record that ends a send on a live connection.\<close>

definition write_log :: "env \<Rightarrow> json \<Rightarrow> event list \<Rightarrow> event" where
  "write_log E c h =
     (case write_gatt_char E h SDN_CMD_WRITE_UUID (payload E c) True of
        Some e \<Rightarrow> Log ERROR (''Error enviando comando: '' @ exn_str e)
      | None \<Rightarrow>
          (case dict_get c ''action'' (JString ''unknown'') of
             Inl e \<Rightarrow> Log ERROR (''Error enviando comando: '' @ exn_str e)
           | Inr a \<Rightarrow> Log INFO (''-> Comando enviado: '' @ py_str E a)))"

text \<open>What the executor answered to the handler's call: the success flag of \<open>adb_exec\<close>.\<close>

definition executor_ok :: "env \<Rightarrow> json \<Rightarrow> json \<Rightarrow> string \<Rightarrow> state \<Rightarrow> bool" where
  "executor_ok E action reason command s =
     (case fst (adb_exec E command (request_logged E action reason s)) of
        Inr (success, _) \<Rightarrow> success
      | Inl _ \<Rightarrow> False)"

fun is_dict :: "json \<Rightarrow> bool" where
  "is_dict (JObject _) = True"
| "is_dict _ = False"

text \<open>What \<open>request.get(key, dflt)\<close> gives on a dict with the items \<open>kvs\<close>.\<close>

definition field :: "(string \<times> json) list \<Rightarrow> string \<Rightarrow> json \<Rightarrow> json" where
  "field kvs key dflt = (case map_of kvs key of None \<Rightarrow> dflt | Some v \<Rightarrow> v)"

section \<open>Concrete environments\<close>

text \<open>
  An environment to evaluate the functions in: the codec accepts ASCII, the parser knows
  four texts, the serialiser writes a flat object of strings, the process call and the
  write have the given outcome, and the client stays connected.
\<close>

definition ascii_decode :: "bytes \<Rightarrow> exn + string" where
  "ascii_decode d =
     (if list_all (\<lambda>b. of_char b < (128::nat)) d then Inr d
      else Inl (Exn ''UnicodeDecodeError'' ''invalid start byte''))"

definition demo_loads :: "string \<Rightarrow> exn + json" where
  "demo_loads t =
     (if t = ''{}'' then Inr (JObject [])
      else if t = ''[]'' then Inr (JArray [])
      else if t = ''{\"action\": \"disable_wifi\"}''
        then Inr (JObject [(''action'', JString ''disable_wifi'')])
      else if t = ''{\"action\": \"enable_bt\", \"reason\": \"app request\"}''
        then Inr (JObject [(''action'', JString ''enable_bt''),
                           (''reason'', JString ''app request'')])
      else Inl (Exn ''JSONDecodeError'' ''Expecting value''))"

fun demo_items :: "(string \<times> json) list \<Rightarrow> string" where
  "demo_items [] = []"
| "demo_items ((k, JString v) # kvs) =
     ''\"'' @ k @ ''\": \"'' @ v @ ''\"'' @ (if kvs = [] then [] else '', '' @ demo_items kvs)"
| "demo_items (_ # kvs) = demo_items kvs"

definition demo_dumps :: "json \<Rightarrow> string" where
  "demo_dumps v = (case v of JObject kvs \<Rightarrow> ''{'' @ demo_items kvs @ ''}'' | _ \<Rightarrow> ''null'')"

definition demo_env :: "(exn + completed_process) \<Rightarrow> exn option \<Rightarrow> env" where
  "demo_env proc wr =
     \<lparr>bytes_decode = ascii_decode, json_loads = demo_loads, str_of_value = type_name,
      json_dumps = demo_dumps, str_encode = (\<lambda>t. t),
      subprocess_run = (\<lambda>h argv. proc), is_connected = (\<lambda>h. True),
      write_gatt_char = (\<lambda>h uuid payload response. wr)\<rparr>"

definition exit_with :: "int \<Rightarrow> string \<Rightarrow> exn + completed_process" where
  "exit_with rc out = Inr \<lparr>returncode = rc, stdout = out\<rparr>"

definition idle :: state where
  "idle = \<lparr>client = Some ''AA:BB:CC:DD:EE:FF'', connected = True, pending_commands = [],
            running = True, trace = [], inbox = []\<rparr>"

definition bt_ready :: json where
  "bt_ready = JObject [(''action'', JString ''BT_READY''), (''sessionId'', JString ''ble-bridge''),
     (''reason'', JString ''ADB enable_bt OK'')]"

definition wifi_off :: json where
  "wifi_off = JObject [(''action'', JString ''WIFI_DISABLED''),
     (''sessionId'', JString ''ble-bridge''), (''reason'', JString ''ADB disable_wifi FAILED'')]"

definition unknown_reply :: json where
  "unknown_reply = JObject [(''action'', JString ''UNKNOWN''),
     (''sessionId'', JString ''ble-bridge''), (''reason'', JString ''Unknown action: unknown'')]"

section \<open>Basic facts\<close>

lemma executor_calls_simps [simp]:
  "executor_calls [] = 0"
  "executor_calls (t @ u) = executor_calls t + executor_calls u"
  "executor_calls (ev # t) = (if is_run ev then 1 else 0) + executor_calls t"
  by (simp_all add: executor_calls_def)

lemma sleeps_simps [simp]:
  "sleeps [] = []"
  "sleeps (t @ u) = sleeps t @ sleeps u"
  "sleeps (ev # t) = sleep_of ev @ sleeps t"
  by (simp_all add: sleeps_def)

lemma gatt_writes_simps [simp]:
  "gatt_writes [] = []"
  "gatt_writes (t @ u) = gatt_writes t @ gatt_writes u"
  "gatt_writes (ev # t) = write_of ev @ gatt_writes t"
  by (simp_all add: gatt_writes_def)

lemma emit_fields [simp]:
  "trace (emit ev s) = trace s @ [ev]"
  "pending_commands (emit ev s) = pending_commands s"
  "inbox (emit ev s) = inbox s"
  "client (emit ev s) = client s"
  "connected (emit ev s) = connected s"
  "running (emit ev s) = running s"
  by (simp_all add: emit_def)

lemmas effect_defs = log_info_def log_warning_def log_error_def time_sleep_def

lemma adb_exec_frame:
  "\<exists>b out t. adb_exec E c s = (Inr (b, out), s\<lparr>trace := trace s @ t\<rparr>)
     \<and> executor_calls t = 1 \<and> sleeps t = [] \<and> gatt_writes t = []"
  by (auto simp: adb_exec_def Let_def effect_defs emit_def split: sum.splits)

lemma handle_enable_bt:
  assumes "adb_exec E ''svc bluetooth enable'' (request_logged E (JString ''enable_bt'') r s)
             = (Inr (b, out), s2)"
  shows "handle_radio_request E (JString ''enable_bt'') r s =
    (Inr (JObject [(''action'', JString ''BT_READY''), (''sessionId'', JString ''ble-bridge''),
        (''reason'', JString (if b then ''ADB enable_bt OK'' else ''ADB enable_bt FAILED''))]),
     if b then time_sleep 2 s2 else s2)"
  using assms by (simp add: handle_radio_request_def)

lemma handle_disable_bt:
  assumes "adb_exec E ''svc bluetooth disable'' (request_logged E (JString ''disable_bt'') r s)
             = (Inr (b, out), s2)"
  shows "handle_radio_request E (JString ''disable_bt'') r s =
    (Inr (JObject [(''action'', JString ''BT_DISABLED''), (''sessionId'', JString ''ble-bridge''),
        (''reason'', JString (if b then ''ADB disable_bt OK'' else ''ADB disable_bt FAILED''))]),
     s2)"
  using assms by (simp add: handle_radio_request_def)

lemma handle_enable_wifi:
  assumes "adb_exec E ''svc wifi enable'' (request_logged E (JString ''enable_wifi'') r s)
             = (Inr (b, out), s2)"
  shows "handle_radio_request E (JString ''enable_wifi'') r s =
    (Inr (JObject [(''action'', JString ''WIFI_READY''), (''sessionId'', JString ''ble-bridge''),
        (''reason'', JString (if b then ''ADB enable_wifi OK'' else ''ADB enable_wifi FAILED''))]),
     if b then time_sleep 3 s2 else s2)"
  using assms by (simp add: handle_radio_request_def)

lemma handle_disable_wifi:
  assumes "adb_exec E ''svc wifi disable'' (request_logged E (JString ''disable_wifi'') r s)
             = (Inr (b, out), s2)"
  shows "handle_radio_request E (JString ''disable_wifi'') r s =
    (Inr (JObject [(''action'', JString ''WIFI_DISABLED''), (''sessionId'', JString ''ble-bridge''),
        (''reason'', JString (if b then ''ADB disable_wifi OK'' else ''ADB disable_wifi FAILED''))]),
     s2)"
  using assms by (simp add: handle_radio_request_def)

lemma handle_other:
  assumes "a \<noteq> JString ''enable_bt''" "a \<noteq> JString ''disable_bt''"
    "a \<noteq> JString ''enable_wifi''" "a \<noteq> JString ''disable_wifi''"
  shows "handle_radio_request E a r s =
    (Inr (JObject [(''action'', JString ''UNKNOWN''), (''sessionId'', JString ''ble-bridge''),
        (''reason'', JString (''Unknown action: '' @ py_str E a))]),
     log_warning (''Radio request desconocido: '' @ py_str E a) (request_logged E a r s))"
  using assms by (simp add: handle_radio_request_def)

lemma request_logged_frame:
  "request_logged E a r s = s\<lparr>trace := trace s @ [Log INFO (''Radio request: action='' @ py_str E a @ '', reason='' @ py_str E r)]\<rparr>"
  by (simp add: request_logged_def log_info_def emit_def)

lemma adb_exec_after_request:
  "\<exists>b out t. adb_exec E c (request_logged E a r s) = (Inr (b, out), s\<lparr>trace := trace s @ t\<rparr>)
     \<and> executor_calls t = 1 \<and> sleeps t = [] \<and> gatt_writes t = []"
proof -
  obtain b out t where *: "adb_exec E c (request_logged E a r s) =
      (Inr (b, out), (request_logged E a r s)\<lparr>trace := trace (request_logged E a r s) @ t\<rparr>)"
    "executor_calls t = 1" "sleeps t = []" "gatt_writes t = []"
    using adb_exec_frame by blast
  let ?ln = "Log INFO (''Radio request: action='' @ py_str E a @ '', reason='' @ py_str E r)"
  have "adb_exec E c (request_logged E a r s) = (Inr (b, out), s\<lparr>trace := trace s @ (?ln # t)\<rparr>)"
    using *(1) by (simp add: request_logged_frame)
  moreover have "executor_calls (?ln # t) = 1" "sleeps (?ln # t) = []" "gatt_writes (?ln # t) = []"
    using * by simp_all
  ultimately show ?thesis by blast
qed

lemma handle_frame:
  "\<exists>c t. handle_radio_request E a r s = (Inr c, s\<lparr>trace := trace s @ t\<rparr>)
     \<and> gatt_writes t = [] \<and> executor_calls t \<le> 1"
proof -
  consider (bt_on) "a = JString ''enable_bt''" | (bt_off) "a = JString ''disable_bt''"
    | (wifi_on) "a = JString ''enable_wifi''" | (wifi_off) "a = JString ''disable_wifi''"
    | (other) "a \<noteq> JString ''enable_bt''" "a \<noteq> JString ''disable_bt''"
        "a \<noteq> JString ''enable_wifi''" "a \<noteq> JString ''disable_wifi''"
    by blast
  then show ?thesis
  proof cases
    case bt_on
    obtain b out t where *: "adb_exec E ''svc bluetooth enable'' (request_logged E a r s)
        = (Inr (b, out), s\<lparr>trace := trace s @ t\<rparr>)" "gatt_writes t = []" "executor_calls t = 1"
      using adb_exec_after_request by blast
    let ?t = "t @ (if b then [TimeSleep 2] else [])"
    have "handle_radio_request E a r s = (Inr (JObject [(''action'', JString ''BT_READY''),
        (''sessionId'', JString ''ble-bridge''),
        (''reason'', JString (if b then ''ADB enable_bt OK'' else ''ADB enable_bt FAILED''))]),
        s\<lparr>trace := trace s @ ?t\<rparr>)"
      using handle_enable_bt[OF *(1)[unfolded bt_on]] bt_on by (simp add: time_sleep_def emit_def)
    moreover have "gatt_writes ?t = []" "executor_calls ?t \<le> 1" using * by simp_all
    ultimately show ?thesis by blast
  next
    case bt_off
    obtain b out t where *: "adb_exec E ''svc bluetooth disable'' (request_logged E a r s)
        = (Inr (b, out), s\<lparr>trace := trace s @ t\<rparr>)" "gatt_writes t = []" "executor_calls t = 1"
      using adb_exec_after_request by blast
    show ?thesis
      using handle_disable_bt[OF *(1)[unfolded bt_off]] bt_off *(2,3) by force
  next
    case wifi_on
    obtain b out t where *: "adb_exec E ''svc wifi enable'' (request_logged E a r s)
        = (Inr (b, out), s\<lparr>trace := trace s @ t\<rparr>)" "gatt_writes t = []" "executor_calls t = 1"
      using adb_exec_after_request by blast
    let ?t = "t @ (if b then [TimeSleep 3] else [])"
    have "handle_radio_request E a r s = (Inr (JObject [(''action'', JString ''WIFI_READY''),
        (''sessionId'', JString ''ble-bridge''),
        (''reason'', JString (if b then ''ADB enable_wifi OK'' else ''ADB enable_wifi FAILED''))]),
        s\<lparr>trace := trace s @ ?t\<rparr>)"
      using handle_enable_wifi[OF *(1)[unfolded wifi_on]] wifi_on by (simp add: time_sleep_def emit_def)
    moreover have "gatt_writes ?t = []" "executor_calls ?t \<le> 1" using * by simp_all
    ultimately show ?thesis by blast
  next
    case wifi_off
    obtain b out t where *: "adb_exec E ''svc wifi disable'' (request_logged E a r s)
        = (Inr (b, out), s\<lparr>trace := trace s @ t\<rparr>)" "gatt_writes t = []" "executor_calls t = 1"
      using adb_exec_after_request by blast
    show ?thesis
      using handle_disable_wifi[OF *(1)[unfolded wifi_off]] wifi_off *(2,3) by force
  next
    case other
    let ?t = "[Log INFO (''Radio request: action='' @ py_str E a @ '', reason='' @ py_str E r),
               Log WARNING (''Radio request desconocido: '' @ py_str E a)]"
    have "handle_radio_request E a r s = (Inr (JObject [(''action'', JString ''UNKNOWN''),
        (''sessionId'', JString ''ble-bridge''),
        (''reason'', JString (''Unknown action: '' @ py_str E a))]), s\<lparr>trace := trace s @ ?t\<rparr>)"
      using handle_other[OF other] by (simp add: request_logged_frame log_warning_def emit_def)
    moreover have "gatt_writes ?t = []" "executor_calls ?t \<le> 1" by simp_all
    ultimately show ?thesis by blast
  qed
qed

lemma radio_notify_frame:
  "\<exists>new t. on_radio_request_notify E d s =
      (Inr (), s\<lparr>pending_commands := pending_commands s @ new, trace := trace s @ t\<rparr>)
     \<and> length new \<le> 1 \<and> gatt_writes t = []"
proof -
  have keep: "\<exists>new t. except_handler e (s\<lparr>trace := trace s @ u\<rparr>) =
      (Inr (), s\<lparr>pending_commands := pending_commands s @ new, trace := trace s @ t\<rparr>)
      \<and> length new \<le> 1 \<and> gatt_writes t = []" if "gatt_writes u = []" for e u
  proof -
    have "except_handler e (s\<lparr>trace := trace s @ u\<rparr>) =
      (Inr (), s\<lparr>pending_commands := pending_commands s @ [],
         trace := trace s @ (u @ [Log ERROR (''Error procesando radio request: '' @ exn_str e)])\<rparr>)"
      by (simp add: except_handler_def log_error_def emit_def)
    moreover have "gatt_writes (u @ [Log ERROR (''Error procesando radio request: '' @ exn_str e)]) = []"
      using that by simp
    ultimately show ?thesis by (metis list.size(3) zero_le)
  qed
  show ?thesis
  proof (cases "bytes_decode E d")
    case (Inl e)
    then show ?thesis using keep[of "[]" e] by (simp add: on_radio_request_notify_def)
  next
    case (Inr json_str)
    let ?u = "[Log INFO (''Radio Request: '' @ json_str)]"
    have s1: "log_info (''Radio Request: '' @ json_str) s = s\<lparr>trace := trace s @ ?u\<rparr>"
      by (simp add: log_info_def emit_def)
    show ?thesis
    proof (cases "json_loads E json_str")
      case (Inl e)
      then show ?thesis using Inr keep[of ?u e] s1 by (simp add: on_radio_request_notify_def)
    next
      case req: (Inr request)
      show ?thesis
      proof (cases "dict_get request ''action'' (JString ''unknown'')")
        case (Inl e)
        then show ?thesis using Inr req keep[of ?u e] s1 by (simp add: on_radio_request_notify_def)
      next
        case act: (Inr action)
        show ?thesis
        proof (cases "dict_get request ''reason'' (JString [])")
          case (Inl e)
          then show ?thesis using Inr req act keep[of ?u e] s1
            by (simp add: on_radio_request_notify_def)
        next
          case rsn: (Inr reason)
          obtain c t where h: "handle_radio_request E action reason (s\<lparr>trace := trace s @ ?u\<rparr>)
              = (Inr c, s\<lparr>trace := trace s @ ?u @ t\<rparr>)" "gatt_writes t = []"
            using handle_frame[of E action reason "s\<lparr>trace := trace s @ ?u\<rparr>"] by auto
          have "on_radio_request_notify E d s =
              (Inr (), s\<lparr>pending_commands := pending_commands s @ [c], trace := trace s @ (?u @ t)\<rparr>)"
            using Inr req act rsn h(1) s1 by (simp add: on_radio_request_notify_def)
          moreover have "length [c] \<le> 1" "gatt_writes (?u @ t) = []" using h(2) by simp_all
          ultimately show ?thesis by blast
        qed
      qed
    qed
  qed
qed

lemma response_notify_frame:
  "\<exists>t. on_response_notify E d s = (Inr (), s\<lparr>trace := trace s @ t\<rparr>) \<and> gatt_writes t = []"
  by (cases "bytes_decode E d") (auto simp: on_response_notify_def effect_defs emit_def)

lemma deliver_frame:
  "\<exists>new t. pending_commands (deliver E a s) = pending_commands s @ new \<and> length new \<le> 1
     \<and> trace (deliver E a s) = trace s @ t \<and> gatt_writes t = []
     \<and> inbox (deliver E a s) = inbox s \<and> client (deliver E a s) = client s"
proof (cases a)
  case (RadioRequestNotify d)
  obtain new t where "on_radio_request_notify E d s =
      (Inr (), s\<lparr>pending_commands := pending_commands s @ new, trace := trace s @ t\<rparr>)"
    "length new \<le> 1" "gatt_writes t = []"
    using radio_notify_frame by blast
  then show ?thesis using RadioRequestNotify by auto
next
  case (ResponseNotify d)
  obtain t where "on_response_notify E d s = (Inr (), s\<lparr>trace := trace s @ t\<rparr>)"
    "gatt_writes t = []"
    using response_notify_frame by blast
  then show ?thesis using ResponseNotify by auto
next
  case Signal
  then show ?thesis by (auto simp: signal_handler_def effect_defs emit_def)
qed

lemma fold_deliver_frame:
  "\<exists>new t. pending_commands (fold (deliver E) batch s) = pending_commands s @ new
     \<and> length new \<le> length batch
     \<and> trace (fold (deliver E) batch s) = trace s @ t \<and> gatt_writes t = []
     \<and> inbox (fold (deliver E) batch s) = inbox s
     \<and> client (fold (deliver E) batch s) = client s"
proof (induction batch arbitrary: s)
  case Nil
  then show ?case by simp
next
  case (Cons a batch)
  obtain n1 t1 where 1: "pending_commands (deliver E a s) = pending_commands s @ n1"
    "length n1 \<le> 1" "trace (deliver E a s) = trace s @ t1" "gatt_writes t1 = []"
    "inbox (deliver E a s) = inbox s" "client (deliver E a s) = client s"
    using deliver_frame by blast
  obtain n2 t2 where 2:
    "pending_commands (fold (deliver E) batch (deliver E a s)) = pending_commands (deliver E a s) @ n2"
    "length n2 \<le> length batch"
    "trace (fold (deliver E) batch (deliver E a s)) = trace (deliver E a s) @ t2" "gatt_writes t2 = []"
    "inbox (fold (deliver E) batch (deliver E a s)) = inbox (deliver E a s)"
    "client (fold (deliver E) batch (deliver E a s)) = client (deliver E a s)"
    using Cons.IH by blast
  have "pending_commands (fold (deliver E) (a # batch) s) = pending_commands s @ (n1 @ n2)"
    "length (n1 @ n2) \<le> length (a # batch)"
    "trace (fold (deliver E) (a # batch) s) = trace s @ (t1 @ t2)" "gatt_writes (t1 @ t2) = []"
    "inbox (fold (deliver E) (a # batch) s) = inbox s"
    "client (fold (deliver E) (a # batch) s) = client s"
    using 1 2 by simp_all
  then show ?case by blast
qed

lemma suspend_idle: "inbox s = [] \<Longrightarrow> suspend E s = s"
  by (simp add: suspend_def)

lemma suspend_frame:
  "\<exists>new t. pending_commands (suspend E s) = pending_commands s @ new
     \<and> length new + arrivals_left (suspend E s) \<le> arrivals_left s
     \<and> trace (suspend E s) = trace s @ t \<and> gatt_writes t = []
     \<and> client (suspend E s) = client s"
proof (cases "inbox s")
  case Nil
  then have "suspend E s = s" by (rule suspend_idle)
  then show ?thesis by simp
next
  case (Cons batch later)
  let ?s0 = "s\<lparr>inbox := later\<rparr>"
  obtain new t where "pending_commands (fold (deliver E) batch ?s0) = pending_commands ?s0 @ new"
    "length new \<le> length batch"
    "trace (fold (deliver E) batch ?s0) = trace ?s0 @ t" "gatt_writes t = []"
    "inbox (fold (deliver E) batch ?s0) = inbox ?s0"
    "client (fold (deliver E) batch ?s0) = client ?s0"
    using fold_deliver_frame by blast
  then show ?thesis using Cons by (auto simp: suspend_def arrivals_left_def)
qed

lemma send_command_frame:
  "\<exists>new t. fst (send_command E c s) = Inr ()
     \<and> pending_commands (snd (send_command E c s)) = pending_commands s @ new
     \<and> length new + arrivals_left (snd (send_command E c s)) \<le> arrivals_left s
     \<and> trace (snd (send_command E c s)) = trace s @ t
     \<and> length (gatt_writes t) \<le> 1
     \<and> client (snd (send_command E c s)) = client s"
proof (cases "client s = None \<or> \<not> is_connected E (trace s)")
  case True
  then have "send_command E c s =
      (Inr (), s\<lparr>trace := trace s @ [Log ERROR ''No conectado - no se puede enviar comando'']\<rparr>)"
    by (auto simp: send_command_def log_error_def emit_def)
  then show ?thesis by (simp add: arrivals_left_def)
next
  case False
  let ?w = "GattWrite SDN_CMD_WRITE_UUID (str_encode E (json_dumps E c)) True"
  let ?s1 = "suspend E (emit ?w s)"
  obtain new t where 1: "pending_commands ?s1 = pending_commands (emit ?w s) @ new"
    "length new + arrivals_left ?s1 \<le> arrivals_left (emit ?w s)"
    "trace ?s1 = trace (emit ?w s) @ t" "gatt_writes t = []" "client ?s1 = client (emit ?w s)"
    using suspend_frame by blast
  have g: "(client s = None \<or> \<not> is_connected E (trace s)) = False"
    using False by blast
  have "\<exists>lv msg. send_command E c s = (Inr (), emit (Log lv msg) ?s1)"
  proof (cases "write_gatt_char E (trace s) SDN_CMD_WRITE_UUID (str_encode E (json_dumps E c)) True")
    case (Some e)
    then have "send_command E c s =
        (Inr (), emit (Log ERROR (''Error enviando comando: '' @ exn_str e)) ?s1)"
      by (simp only: send_command_def g Let_def effect_defs if_False option.case)
    then show ?thesis by blast
  next
    case None
    show ?thesis
    proof (cases "dict_get c ''action'' (JString ''unknown'')")
      case (Inl e)
      then have "send_command E c s =
          (Inr (), emit (Log ERROR (''Error enviando comando: '' @ exn_str e)) ?s1)"
        using None by (simp only: send_command_def g Let_def effect_defs if_False option.case sum.case)
      then show ?thesis by blast
    next
      case (Inr a)
      then have "send_command E c s =
          (Inr (), emit (Log INFO (''-> Comando enviado: '' @ py_str E a)) ?s1)"
        using None by (simp only: send_command_def g Let_def effect_defs if_False option.case sum.case)
      then show ?thesis by blast
    qed
  qed
  then obtain lv msg where 2: "send_command E c s = (Inr (), emit (Log lv msg) ?s1)"
    by blast
  have "pending_commands (snd (send_command E c s)) = pending_commands s @ new"
    "length new + arrivals_left (snd (send_command E c s)) \<le> arrivals_left s"
    "trace (snd (send_command E c s)) = trace s @ (?w # t @ [Log lv msg])"
    "length (gatt_writes (?w # t @ [Log lv msg])) \<le> 1"
    "client (snd (send_command E c s)) = client s"
    using 1 2 by (simp_all add: arrivals_left_def)
  then show ?thesis using 2 by (metis fst_conv)
qed

text \<open>
  The inner loop ends: each round takes one item off the queue, and a suspension adds
  at most one item per arrival it consumes.
\<close>

termination drain_pending
proof (relation "measure (\<lambda>(E, s). length (pending_commands s) + arrivals_left s)")
  show "wf (measure (\<lambda>(E, s). length (pending_commands s) + arrivals_left s))"
    by simp
next
  fix E s cmd rest x s' u
  assume q: "pending_commands s = cmd # rest"
    and r: "(x, s') = send_command E cmd (s\<lparr>pending_commands := rest\<rparr>)"
    and "x = Inr u"
  from r have s': "s' = snd (send_command E cmd (s\<lparr>pending_commands := rest\<rparr>))"
    by (metis snd_conv)
  obtain new where "pending_commands s' = rest @ new"
    "length new + arrivals_left s' \<le> arrivals_left (s\<lparr>pending_commands := rest\<rparr>)"
    using send_command_frame[of E cmd "s\<lparr>pending_commands := rest\<rparr>"] s' by auto
  then show "((E, s'), (E, s)) \<in> measure (\<lambda>(E, s). length (pending_commands s) + arrivals_left s)"
    using q by (simp add: arrivals_left_def)
qed

declare drain_pending.simps [simp del]

lemmas demo_defs = demo_env_def exit_with_def idle_def ascii_decode_def demo_loads_def
  demo_dumps_def

lemmas run_defs = adb_exec_def request_logged_def effect_defs emit_def ADB_CMD_def
  str_split_def str_strip_def isspace_def py_str_def

section \<open>The radio-request handler\<close>

lemma adb_exec_cases:
  obtains b out s2 where "adb_exec E c s = (Inr (b, out), s2)"
  using adb_exec_frame by blast

text \<open>
  C1. For each of the four known actions and for both answers of the executor, the
  handler returns the confirmation of the table: BT_READY and WIFI_READY for the enable
  actions whether the executor succeeded or not, BT_DISABLED and WIFI_DISABLED for the
  disable actions, the reason ending in OK or FAILED, and the session id "ble-bridge".
\<close>

theorem handle_known_actions:
  "fst (handle_radio_request E (JString ''enable_bt'') reason s) =
     Inr (JObject [(''action'', JString ''BT_READY''), (''sessionId'', JString ''ble-bridge''),
       (''reason'', JString
          (if executor_ok E (JString ''enable_bt'') reason ''svc bluetooth enable'' s
           then ''ADB enable_bt OK'' else ''ADB enable_bt FAILED''))])
   \<and> fst (handle_radio_request E (JString ''disable_bt'') reason s) =
     Inr (JObject [(''action'', JString ''BT_DISABLED''), (''sessionId'', JString ''ble-bridge''),
       (''reason'', JString
          (if executor_ok E (JString ''disable_bt'') reason ''svc bluetooth disable'' s
           then ''ADB disable_bt OK'' else ''ADB disable_bt FAILED''))])
   \<and> fst (handle_radio_request E (JString ''enable_wifi'') reason s) =
     Inr (JObject [(''action'', JString ''WIFI_READY''), (''sessionId'', JString ''ble-bridge''),
       (''reason'', JString
          (if executor_ok E (JString ''enable_wifi'') reason ''svc wifi enable'' s
           then ''ADB enable_wifi OK'' else ''ADB enable_wifi FAILED''))])
   \<and> fst (handle_radio_request E (JString ''disable_wifi'') reason s) =
     Inr (JObject [(''action'', JString ''WIFI_DISABLED''), (''sessionId'', JString ''ble-bridge''),
       (''reason'', JString
          (if executor_ok E (JString ''disable_wifi'') reason ''svc wifi disable'' s
           then ''ADB disable_wifi OK'' else ''ADB disable_wifi FAILED''))])"
proof (intro conjI)
  obtain b out s2 where *: "adb_exec E ''svc bluetooth enable''
      (request_logged E (JString ''enable_bt'') reason s) = (Inr (b, out), s2)"
    by (rule adb_exec_cases)
  show "fst (handle_radio_request E (JString ''enable_bt'') reason s) =
     Inr (JObject [(''action'', JString ''BT_READY''), (''sessionId'', JString ''ble-bridge''),
       (''reason'', JString
          (if executor_ok E (JString ''enable_bt'') reason ''svc bluetooth enable'' s
           then ''ADB enable_bt OK'' else ''ADB enable_bt FAILED''))])"
    using handle_enable_bt[OF *] * by (simp add: executor_ok_def)
next
  obtain b out s2 where *: "adb_exec E ''svc bluetooth disable''
      (request_logged E (JString ''disable_bt'') reason s) = (Inr (b, out), s2)"
    by (rule adb_exec_cases)
  show "fst (handle_radio_request E (JString ''disable_bt'') reason s) =
     Inr (JObject [(''action'', JString ''BT_DISABLED''), (''sessionId'', JString ''ble-bridge''),
       (''reason'', JString
          (if executor_ok E (JString ''disable_bt'') reason ''svc bluetooth disable'' s
           then ''ADB disable_bt OK'' else ''ADB disable_bt FAILED''))])"
    using handle_disable_bt[OF *] * by (simp add: executor_ok_def)
next
  obtain b out s2 where *: "adb_exec E ''svc wifi enable''
      (request_logged E (JString ''enable_wifi'') reason s) = (Inr (b, out), s2)"
    by (rule adb_exec_cases)
  show "fst (handle_radio_request E (JString ''enable_wifi'') reason s) =
     Inr (JObject [(''action'', JString ''WIFI_READY''), (''sessionId'', JString ''ble-bridge''),
       (''reason'', JString
          (if executor_ok E (JString ''enable_wifi'') reason ''svc wifi enable'' s
           then ''ADB enable_wifi OK'' else ''ADB enable_wifi FAILED''))])"
    using handle_enable_wifi[OF *] * by (simp add: executor_ok_def)
next
  obtain b out s2 where *: "adb_exec E ''svc wifi disable''
      (request_logged E (JString ''disable_wifi'') reason s) = (Inr (b, out), s2)"
    by (rule adb_exec_cases)
  show "fst (handle_radio_request E (JString ''disable_wifi'') reason s) =
     Inr (JObject [(''action'', JString ''WIFI_DISABLED''), (''sessionId'', JString ''ble-bridge''),
       (''reason'', JString
          (if executor_ok E (JString ''disable_wifi'') reason ''svc wifi disable'' s
           then ''ADB disable_wifi OK'' else ''ADB disable_wifi FAILED''))])"
    using handle_disable_wifi[OF *] * by (simp add: executor_ok_def)
qed

text \<open>
  The two scenarios of the specification: enable_bt with a succeeding executor, and
  disable_wifi without a reason with a failing executor.
\<close>

theorem handle_known_actions_witness:
  "fst (handle_radio_request (demo_env (exit_with 0 []) None) (JString ''enable_bt'')
          (JString ''app request'') idle) =
     Inr (JObject [(''action'', JString ''BT_READY''), (''sessionId'', JString ''ble-bridge''),
       (''reason'', JString ''ADB enable_bt OK'')])
   \<and> fst (handle_radio_request (demo_env (exit_with 1 []) None) (JString ''disable_wifi'')
          (JString []) idle) =
     Inr (JObject [(''action'', JString ''WIFI_DISABLED''), (''sessionId'', JString ''ble-bridge''),
       (''reason'', JString ''ADB disable_wifi FAILED'')])"
  using handle_known_actions[of "demo_env (exit_with 0 []) None" "JString ''app request''" idle]
    handle_known_actions[of "demo_env (exit_with 1 []) None" "JString []" idle]
  by (simp add: executor_ok_def run_defs demo_defs)

text \<open>
  C3. For an action string outside the four known ones the handler returns the UNKNOWN
  confirmation with the reason "Unknown action: " followed by the action, and the
  executor is not called: the handler only writes two log records.
\<close>

theorem handle_unknown_action:
  assumes "a \<notin> {''enable_bt'', ''disable_bt'', ''enable_wifi'', ''disable_wifi''}"
  shows "fst (handle_radio_request E (JString a) reason s) =
      Inr (JObject [(''action'', JString ''UNKNOWN''), (''sessionId'', JString ''ble-bridge''),
        (''reason'', JString (''Unknown action: '' @ a))])
    \<and> executor_calls (trace (snd (handle_radio_request E (JString a) reason s)))
        = executor_calls (trace s)
    \<and> trace (snd (handle_radio_request E (JString a) reason s)) =
        trace s @ [Log INFO (''Radio request: action='' @ a @ '', reason='' @ py_str E reason),
                   Log WARNING (''Radio request desconocido: '' @ a)]"
proof -
  have "JString a \<noteq> JString ''enable_bt''" "JString a \<noteq> JString ''disable_bt''"
    "JString a \<noteq> JString ''enable_wifi''" "JString a \<noteq> JString ''disable_wifi''"
    using assms by auto
  from handle_other[OF this, of E reason s] show ?thesis
    by (simp add: request_logged_def effect_defs py_str_def)
qed

theorem handle_unknown_action_witness:
  "fst (handle_radio_request (demo_env (exit_with 0 []) None) (JString ''reboot'') (JString []) idle) =
      Inr (JObject [(''action'', JString ''UNKNOWN''), (''sessionId'', JString ''ble-bridge''),
        (''reason'', JString ''Unknown action: reboot'')])
    \<and> executor_calls (trace (snd (handle_radio_request (demo_env (exit_with 0 []) None)
          (JString ''reboot'') (JString []) idle))) = 0"
  using handle_unknown_action[of "''reboot''" "demo_env (exit_with 0 []) None" "JString []" idle]
  by (simp add: idle_def)

text \<open>
  C6, as stated, fails: when the executor reports failure the handler returns at once.
  Here the process exits with code 1, and the history of the call holds no sleep.
\<close>

theorem post_wait_counterexample:
  "fst (handle_radio_request (demo_env (exit_with 1 []) None) (JString ''enable_bt'')
          (JString []) idle) =
     Inr (JObject [(''action'', JString ''BT_READY''), (''sessionId'', JString ''ble-bridge''),
       (''reason'', JString ''ADB enable_bt FAILED'')])
   \<and> sleeps (trace (snd (handle_radio_request (demo_env (exit_with 1 []) None)
          (JString ''enable_bt'') (JString []) idle))) = []"
  by (simp add: handle_radio_request_def run_defs demo_defs)

text \<open>
  C6, amended. An enable_bt request whose executor call succeeds sleeps 2 seconds, an
  enable_wifi request whose executor call succeeds sleeps 3 seconds, and the sleep is the
  last effect before the handler returns. When the executor call fails, and for the
  disable actions, the handler does not sleep.
\<close>

theorem post_wait_on_success:
  "sleeps (trace (snd (handle_radio_request E (JString ''enable_bt'') reason s))) =
     sleeps (trace s) @
       (if executor_ok E (JString ''enable_bt'') reason ''svc bluetooth enable'' s then [2] else [])
   \<and> (executor_ok E (JString ''enable_bt'') reason ''svc bluetooth enable'' s \<longrightarrow>
        last (trace (snd (handle_radio_request E (JString ''enable_bt'') reason s))) = TimeSleep 2)
   \<and> sleeps (trace (snd (handle_radio_request E (JString ''enable_wifi'') reason s))) =
     sleeps (trace s) @
       (if executor_ok E (JString ''enable_wifi'') reason ''svc wifi enable'' s then [3] else [])
   \<and> (executor_ok E (JString ''enable_wifi'') reason ''svc wifi enable'' s \<longrightarrow>
        last (trace (snd (handle_radio_request E (JString ''enable_wifi'') reason s))) = TimeSleep 3)
   \<and> sleeps (trace (snd (handle_radio_request E (JString ''disable_bt'') reason s))) =
        sleeps (trace s)
   \<and> sleeps (trace (snd (handle_radio_request E (JString ''disable_wifi'') reason s))) =
        sleeps (trace s)"
proof -
  have bt: "sleeps (trace (snd (handle_radio_request E (JString ''enable_bt'') reason s))) =
     sleeps (trace s) @
       (if executor_ok E (JString ''enable_bt'') reason ''svc bluetooth enable'' s then [2] else [])
   \<and> (executor_ok E (JString ''enable_bt'') reason ''svc bluetooth enable'' s \<longrightarrow>
        last (trace (snd (handle_radio_request E (JString ''enable_bt'') reason s))) = TimeSleep 2)"
  proof -
    obtain b out t where *: "adb_exec E ''svc bluetooth enable''
        (request_logged E (JString ''enable_bt'') reason s) = (Inr (b, out), s\<lparr>trace := trace s @ t\<rparr>)"
      "sleeps t = []"
      using adb_exec_after_request by blast
    show ?thesis using handle_enable_bt[OF *(1)] * by (simp add: executor_ok_def time_sleep_def)
  qed
  have wifi: "sleeps (trace (snd (handle_radio_request E (JString ''enable_wifi'') reason s))) =
     sleeps (trace s) @
       (if executor_ok E (JString ''enable_wifi'') reason ''svc wifi enable'' s then [3] else [])
   \<and> (executor_ok E (JString ''enable_wifi'') reason ''svc wifi enable'' s \<longrightarrow>
        last (trace (snd (handle_radio_request E (JString ''enable_wifi'') reason s))) = TimeSleep 3)"
  proof -
    obtain b out t where *: "adb_exec E ''svc wifi enable''
        (request_logged E (JString ''enable_wifi'') reason s) = (Inr (b, out), s\<lparr>trace := trace s @ t\<rparr>)"
      "sleeps t = []"
      using adb_exec_after_request by blast
    show ?thesis using handle_enable_wifi[OF *(1)] * by (simp add: executor_ok_def time_sleep_def)
  qed
  have bt_off: "sleeps (trace (snd (handle_radio_request E (JString ''disable_bt'') reason s))) =
        sleeps (trace s)"
  proof -
    obtain b out t where *: "adb_exec E ''svc bluetooth disable''
        (request_logged E (JString ''disable_bt'') reason s) = (Inr (b, out), s\<lparr>trace := trace s @ t\<rparr>)"
      "sleeps t = []"
      using adb_exec_after_request by blast
    show ?thesis using handle_disable_bt[OF *(1)] * by simp
  qed
  have wifi_off: "sleeps (trace (snd (handle_radio_request E (JString ''disable_wifi'') reason s))) =
        sleeps (trace s)"
  proof -
    obtain b out t where *: "adb_exec E ''svc wifi disable''
        (request_logged E (JString ''disable_wifi'') reason s) = (Inr (b, out), s\<lparr>trace := trace s @ t\<rparr>)"
      "sleeps t = []"
      using adb_exec_after_request by blast
    show ?thesis using handle_disable_wifi[OF *(1)] * by simp
  qed
  from bt wifi bt_off wifi_off show ?thesis by blast
qed

theorem post_wait_on_success_witness:
  "executor_ok (demo_env (exit_with 0 []) None) (JString ''enable_bt'') (JString ''app request'')
      ''svc bluetooth enable'' idle
   \<and> last (trace (snd (handle_radio_request (demo_env (exit_with 0 []) None)
        (JString ''enable_bt'') (JString ''app request'') idle))) = TimeSleep 2
   \<and> executor_ok (demo_env (exit_with 0 []) None) (JString ''enable_wifi'') (JString ''app request'')
      ''svc wifi enable'' idle
   \<and> sleeps (trace (snd (handle_radio_request (demo_env (exit_with 0 []) None)
        (JString ''enable_wifi'') (JString ''app request'') idle))) = [3]"
proof -
  have 1: "executor_ok (demo_env (exit_with 0 []) None) (JString ''enable_bt'')
      (JString ''app request'') ''svc bluetooth enable'' idle"
    by (simp add: executor_ok_def run_defs demo_defs)
  have 2: "executor_ok (demo_env (exit_with 0 []) None) (JString ''enable_wifi'')
      (JString ''app request'') ''svc wifi enable'' idle"
    by (simp add: executor_ok_def run_defs demo_defs)
  have 3: "sleeps (trace idle) = []" by (simp add: idle_def)
  show ?thesis
    using post_wait_on_success[of "demo_env (exit_with 0 []) None" "JString ''app request''" idle]
      1 2 3 by simp
qed

section \<open>The command executor\<close>

text \<open>
  C5, as stated, fails in one point: a process that exits with a code other than zero
  gives \<open>success = False\<close> together with its own standard output, stripped, and that
  may be the empty string, which describes no failure. (The error stream is captured
  and not returned.)
\<close>

theorem adb_exec_output_counterexample:
  "fst (adb_exec (demo_env (exit_with 1 []) None) ''svc wifi enable'' idle) = Inr (False, [])"
  by (simp add: run_defs demo_defs)

text \<open>
  C5, amended. \<open>adb_exec\<close> always returns a pair and never raises. With \<open>h\<close> the history
  at the call of subprocess.run and \<open>argv\<close> the split command line:
  a timeout gives \<open>(False, "timeout")\<close>; any other exception gives \<open>False\<close> and the text
  of the exception; a process that ran gives its stripped standard output, whatever
  it is, and \<open>success\<close> is true exactly when the return code is zero.
\<close>

theorem adb_exec_never_raises:
  fixes E :: env and command :: string and s :: state
  defines "h \<equiv> trace s @ [Log INFO (''ADB exec: '' @ ADB_CMD @ '' shell '' @ command)]"
  defines "argv \<equiv> str_split (ADB_CMD @ '' shell '' @ command)"
  shows "(\<exists>success output. fst (adb_exec E command s) = Inr (success, output))
    \<and> (\<forall>e. subprocess_run E h argv = Inl e \<and> exn_class e = ''TimeoutExpired''
          \<longrightarrow> fst (adb_exec E command s) = Inr (False, ''timeout''))
    \<and> (\<forall>e. subprocess_run E h argv = Inl e \<and> exn_class e \<noteq> ''TimeoutExpired''
          \<longrightarrow> fst (adb_exec E command s) = Inr (False, exn_str e))
    \<and> (\<forall>p. subprocess_run E h argv = Inr p
          \<longrightarrow> fst (adb_exec E command s) = Inr (returncode p = 0, str_strip (stdout p)))
    \<and> ((\<exists>output. fst (adb_exec E command s) = Inr (True, output))
          \<longleftrightarrow> (\<exists>p. subprocess_run E h argv = Inr p \<and> returncode p = 0))"
proof (cases "subprocess_run E h argv")
  case (Inl e)
  then show ?thesis
    unfolding h_def argv_def
    by (auto simp: adb_exec_def Let_def effect_defs emit_def)
next
  case (Inr p)
  then show ?thesis
    unfolding h_def argv_def
    by (simp add: adb_exec_def Let_def effect_defs emit_def)
qed

theorem adb_exec_never_raises_witness:
  "fst (adb_exec (demo_env (Inl (Exn ''TimeoutExpired'' ''timed out after 10 seconds'')) None)
         ''svc wifi enable'' idle) = Inr (False, ''timeout'')
   \<and> fst (adb_exec (demo_env (Inl (Exn ''FileNotFoundError'' ''No such file or directory'')) None)
         ''svc wifi enable'' idle) = Inr (False, ''No such file or directory'')
   \<and> fst (adb_exec (demo_env (exit_with 1 '' error: no devices  '') None)
         ''svc wifi enable'' idle) = Inr (False, ''error: no devices'')
   \<and> fst (adb_exec (demo_env (exit_with 0 []) None) ''svc wifi enable'' idle) = Inr (True, [])"
proof -
  let ?T = "demo_env (Inl (Exn ''TimeoutExpired'' ''timed out after 10 seconds'')) None"
  let ?F = "demo_env (Inl (Exn ''FileNotFoundError'' ''No such file or directory'')) None"
  let ?X = "demo_env (exit_with 1 '' error: no devices  '') None"
  let ?O = "demo_env (exit_with 0 []) None"
  have "fst (adb_exec ?T ''svc wifi enable'' idle) = Inr (False, ''timeout'')"
    using adb_exec_never_raises[of ?T "''svc wifi enable''" idle]
    by (simp add: demo_env_def)
  moreover have "fst (adb_exec ?F ''svc wifi enable'' idle) = Inr (False, ''No such file or directory'')"
    using adb_exec_never_raises[of ?F "''svc wifi enable''" idle]
    by (simp add: demo_env_def)
  moreover have "fst (adb_exec ?X ''svc wifi enable'' idle) = Inr (False, ''error: no devices'')"
    using adb_exec_never_raises[of ?X "''svc wifi enable''" idle]
    by (simp add: demo_env_def exit_with_def str_strip_def isspace_def)
  moreover have "fst (adb_exec ?O ''svc wifi enable'' idle) = Inr (True, [])"
    using adb_exec_never_raises[of ?O "''svc wifi enable''" idle]
    by (simp add: demo_env_def exit_with_def str_strip_def)
  ultimately show ?thesis by blast
qed

section \<open>The radio-request callback\<close>

lemma radio_notify_parsed:
  assumes "bytes_decode E data = Inr js" and "json_loads E js = Inr (JObject kvs)"
    and "handle_radio_request E (field kvs ''action'' (JString ''unknown''))
           (field kvs ''reason'' (JString [])) (log_info (''Radio Request: '' @ js) s)
         = (Inr c, s2)"
  shows "on_radio_request_notify E data s =
     (Inr (), s2\<lparr>pending_commands := pending_commands s2 @ [c]\<rparr>)"
  using assms by (simp add: on_radio_request_notify_def field_def)

lemma radio_notify_dropped:
  assumes "(\<exists>e. bytes_decode E data = Inl e)
    \<or> (\<exists>js e. bytes_decode E data = Inr js \<and> json_loads E js = Inl e)
    \<or> (\<exists>js v. bytes_decode E data = Inr js \<and> json_loads E js = Inr v \<and> \<not> is_dict v)"
  shows "\<exists>t msg. on_radio_request_notify E data s =
      (Inr (), s\<lparr>trace := trace s @ t @ [Log ERROR msg]\<rparr>) \<and> executor_calls t = 0"
proof -
  have h: "\<exists>t msg. except_handler e (s\<lparr>trace := trace s @ u\<rparr>) =
      (Inr (), s\<lparr>trace := trace s @ t @ [Log ERROR msg]\<rparr>) \<and> executor_calls t = 0"
    if "executor_calls u = 0" for e u
  proof -
    have "except_handler e (s\<lparr>trace := trace s @ u\<rparr>) =
      (Inr (), s\<lparr>trace := trace s @ u @ [Log ERROR (''Error procesando radio request: '' @ exn_str e)]\<rparr>)"
      by (simp add: except_handler_def log_error_def emit_def)
    then show ?thesis using that by blast
  qed
  from assms consider (decode) e where "bytes_decode E data = Inl e"
    | (parse) js e where "bytes_decode E data = Inr js" "json_loads E js = Inl e"
    | (shape) js v where "bytes_decode E data = Inr js" "json_loads E js = Inr v" "\<not> is_dict v"
    by blast
  then show ?thesis
  proof cases
    case decode
    then show ?thesis using h[of "[]" e] by (simp add: on_radio_request_notify_def)
  next
    case parse
    have s1: "log_info (''Radio Request: '' @ js) s = s\<lparr>trace := trace s @ [Log INFO (''Radio Request: '' @ js)]\<rparr>"
      by (simp add: log_info_def emit_def)
    show ?thesis using parse h[of "[Log INFO (''Radio Request: '' @ js)]" e] s1
      by (simp add: on_radio_request_notify_def)
  next
    case shape
    have s1: "log_info (''Radio Request: '' @ js) s = s\<lparr>trace := trace s @ [Log INFO (''Radio Request: '' @ js)]\<rparr>"
      by (simp add: log_info_def emit_def)
    obtain e where e: "dict_get v ''action'' (JString ''unknown'') = Inl e"
      using shape(3) by (cases v) simp_all
    show ?thesis using shape e h[of "[Log INFO (''Radio Request: '' @ js)]" e] s1
      by (simp add: on_radio_request_notify_def)
  qed
qed

text \<open>
  C2. A payload that decodes and parses to a request object makes the callback append
  exactly one confirmation, the handler's, to \<open>pending_commands\<close> before it returns; an
  action outside the four known ones gives the UNKNOWN confirmation. (A payload that
  parses to something else than an object is not a request: see C4.)
\<close>

theorem radio_request_enqueues_one:
  assumes "bytes_decode E data = Inr js" and "json_loads E js = Inr (JObject kvs)"
  shows "\<exists>c s2.
      handle_radio_request E (field kvs ''action'' (JString ''unknown''))
        (field kvs ''reason'' (JString [])) (log_info (''Radio Request: '' @ js) s) = (Inr c, s2)
    \<and> fst (on_radio_request_notify E data s) = Inr ()
    \<and> pending_commands (snd (on_radio_request_notify E data s)) = pending_commands s @ [c]
    \<and> (field kvs ''action'' (JString ''unknown'') \<notin> {JString ''enable_bt'',
          JString ''disable_bt'', JString ''enable_wifi'', JString ''disable_wifi''}
        \<longrightarrow> c = JObject [(''action'', JString ''UNKNOWN''), (''sessionId'', JString ''ble-bridge''),
              (''reason'', JString (''Unknown action: ''
                 @ py_str E (field kvs ''action'' (JString ''unknown''))))])"
proof -
  let ?a = "field kvs ''action'' (JString ''unknown'')"
  let ?r = "field kvs ''reason'' (JString [])"
  let ?s1 = "log_info (''Radio Request: '' @ js) s"
  obtain c t where h: "handle_radio_request E ?a ?r ?s1 = (Inr c, ?s1\<lparr>trace := trace ?s1 @ t\<rparr>)"
    using handle_frame by blast
  have n: "on_radio_request_notify E data s =
      (Inr (), (?s1\<lparr>trace := trace ?s1 @ t\<rparr>)\<lparr>pending_commands :=
         pending_commands (?s1\<lparr>trace := trace ?s1 @ t\<rparr>) @ [c]\<rparr>)"
    by (rule radio_notify_parsed[OF assms h])
  have p: "pending_commands (snd (on_radio_request_notify E data s)) = pending_commands s @ [c]"
    by (simp add: n log_info_def)
  have u: "c = JObject [(''action'', JString ''UNKNOWN''), (''sessionId'', JString ''ble-bridge''),
              (''reason'', JString (''Unknown action: '' @ py_str E ?a))]"
    if "?a \<notin> {JString ''enable_bt'', JString ''disable_bt'', JString ''enable_wifi'',
          JString ''disable_wifi''}"
  proof -
    have "?a \<noteq> JString ''enable_bt''" "?a \<noteq> JString ''disable_bt''"
      "?a \<noteq> JString ''enable_wifi''" "?a \<noteq> JString ''disable_wifi''"
      using that by auto
    from handle_other[OF this, of E ?r ?s1] h show ?thesis by simp
  qed
  from h n p u show ?thesis by (metis fst_conv)
qed

theorem radio_request_enqueues_one_witness:
  "pending_commands (snd (on_radio_request_notify (demo_env (exit_with 1 []) None)
      ''{\"action\": \"disable_wifi\"}'' idle)) =
     [JObject [(''action'', JString ''WIFI_DISABLED''), (''sessionId'', JString ''ble-bridge''),
        (''reason'', JString ''ADB disable_wifi FAILED'')]]
   \<and> fst (on_radio_request_notify (demo_env (exit_with 1 []) None)
      ''{\"action\": \"disable_wifi\"}'' idle) = Inr ()"
proof -
  let ?E = "demo_env (exit_with 1 []) None"
  have d: "bytes_decode ?E ''{\"action\": \"disable_wifi\"}'' = Inr ''{\"action\": \"disable_wifi\"}''"
    by (simp add: demo_defs)
  have l: "json_loads ?E ''{\"action\": \"disable_wifi\"}'' =
      Inr (JObject [(''action'', JString ''disable_wifi'')])"
    by (simp add: demo_defs)
  have c: "fst (handle_radio_request ?E
      (field [(''action'', JString ''disable_wifi'')] ''action'' (JString ''unknown''))
      (field [(''action'', JString ''disable_wifi'')] ''reason'' (JString []))
      (log_info (''Radio Request: '' @ ''{\"action\": \"disable_wifi\"}'') idle)) =
     Inr (JObject [(''action'', JString ''WIFI_DISABLED''), (''sessionId'', JString ''ble-bridge''),
        (''reason'', JString ''ADB disable_wifi FAILED'')])"
    by (simp add: handle_radio_request_def field_def run_defs demo_defs)
  have p: "pending_commands idle = []" by (simp add: idle_def)
  from radio_request_enqueues_one[OF d l, of idle] c p show ?thesis
    by (metis append_Nil fst_conv sum.inject(2))
qed

text \<open>
  C4. A payload that does not decode, or whose text does not parse, or that parses to
  something else than an object, makes the callback return normally with the queue as
  it was and without a call of the executor; its last effect is an error log record.
\<close>

theorem malformed_payload_dropped:
  assumes "(\<exists>e. bytes_decode E data = Inl e)
    \<or> (\<exists>js e. bytes_decode E data = Inr js \<and> json_loads E js = Inl e)
    \<or> (\<exists>js v. bytes_decode E data = Inr js \<and> json_loads E js = Inr v \<and> \<not> is_dict v)"
  shows "fst (on_radio_request_notify E data s) = Inr ()
    \<and> pending_commands (snd (on_radio_request_notify E data s)) = pending_commands s
    \<and> executor_calls (trace (snd (on_radio_request_notify E data s))) = executor_calls (trace s)
    \<and> (\<exists>msg. last (trace (snd (on_radio_request_notify E data s))) = Log ERROR msg)"
proof -
  obtain t msg where "on_radio_request_notify E data s =
      (Inr (), s\<lparr>trace := trace s @ t @ [Log ERROR msg]\<rparr>)" "executor_calls t = 0"
    using radio_notify_dropped[OF assms] by blast
  then show ?thesis by simp
qed

theorem malformed_payload_dropped_witness:
  "pending_commands (snd (on_radio_request_notify (demo_env (exit_with 0 []) None)
      [CHR 0xFF, CHR 0xFE] idle)) = []
   \<and> executor_calls (trace (snd (on_radio_request_notify (demo_env (exit_with 0 []) None)
      [CHR 0xFF, CHR 0xFE] idle))) = 0
   \<and> pending_commands (snd (on_radio_request_notify (demo_env (exit_with 0 []) None)
      ''{\"action\": '' idle)) = []
   \<and> executor_calls (trace (snd (on_radio_request_notify (demo_env (exit_with 0 []) None)
      ''{\"action\": '' idle))) = 0
   \<and> pending_commands (snd (on_radio_request_notify (demo_env (exit_with 0 []) None)
      ''[]'' idle)) = []
   \<and> executor_calls (trace (snd (on_radio_request_notify (demo_env (exit_with 0 []) None)
      ''[]'' idle))) = 0"
proof -
  let ?E = "demo_env (exit_with 0 []) None"
  have 1: "\<exists>e. bytes_decode ?E [CHR 0xFF, CHR 0xFE] = Inl e"
    by (simp add: demo_defs)
  have 2: "\<exists>js e. bytes_decode ?E ''{\"action\": '' = Inr js \<and> json_loads ?E js = Inl e"
    by (simp add: demo_defs)
  have 3: "\<exists>js v. bytes_decode ?E ''[]'' = Inr js \<and> json_loads ?E js = Inr v \<and> \<not> is_dict v"
    by (simp add: demo_defs)
  have i: "pending_commands idle = []" "executor_calls (trace idle) = 0"
    by (simp_all add: idle_def)
  from 1 have "(\<exists>e. bytes_decode ?E [CHR 0xFF, CHR 0xFE] = Inl e)
    \<or> (\<exists>js e. bytes_decode ?E [CHR 0xFF, CHR 0xFE] = Inr js \<and> json_loads ?E js = Inl e)
    \<or> (\<exists>js v. bytes_decode ?E [CHR 0xFF, CHR 0xFE] = Inr js \<and> json_loads ?E js = Inr v \<and> \<not> is_dict v)"
    by blast
  note a = malformed_payload_dropped[OF this, of idle]
  from 2 have "(\<exists>e. bytes_decode ?E ''{\"action\": '' = Inl e)
    \<or> (\<exists>js e. bytes_decode ?E ''{\"action\": '' = Inr js \<and> json_loads ?E js = Inl e)
    \<or> (\<exists>js v. bytes_decode ?E ''{\"action\": '' = Inr js \<and> json_loads ?E js = Inr v \<and> \<not> is_dict v)"
    by blast
  note b = malformed_payload_dropped[OF this, of idle]
  from 3 have "(\<exists>e. bytes_decode ?E ''[]'' = Inl e)
    \<or> (\<exists>js e. bytes_decode ?E ''[]'' = Inr js \<and> json_loads ?E js = Inl e)
    \<or> (\<exists>js v. bytes_decode ?E ''[]'' = Inr js \<and> json_loads ?E js = Inr v \<and> \<not> is_dict v)"
    by blast
  note c = malformed_payload_dropped[OF this, of idle]
  from a b c i show ?thesis by simp
qed

text \<open>
  C10. A payload that parses to an object without the key "action" is not dropped: the
  action defaults to the string "unknown", which is none of the known actions, so the
  callback appends the UNKNOWN confirmation with the reason "Unknown action: unknown"
  and the executor is not called.
\<close>

theorem missing_action_defaults_to_unknown:
  assumes "bytes_decode E data = Inr js" and "json_loads E js = Inr (JObject kvs)"
    and "map_of kvs ''action'' = None"
  shows "fst (on_radio_request_notify E data s) = Inr ()
    \<and> pending_commands (snd (on_radio_request_notify E data s)) =
        pending_commands s @
          [JObject [(''action'', JString ''UNKNOWN''), (''sessionId'', JString ''ble-bridge''),
             (''reason'', JString ''Unknown action: unknown'')]]
    \<and> executor_calls (trace (snd (on_radio_request_notify E data s))) = executor_calls (trace s)"
proof -
  let ?a = "JString ''unknown''"
  let ?r = "field kvs ''reason'' (JString [])"
  let ?s1 = "log_info (''Radio Request: '' @ js) s"
  have a: "field kvs ''action'' (JString ''unknown'') = ?a"
    using assms(3) by (simp add: field_def)
  have "?a \<noteq> JString ''enable_bt''" "?a \<noteq> JString ''disable_bt''"
    "?a \<noteq> JString ''enable_wifi''" "?a \<noteq> JString ''disable_wifi''"
    by simp_all
  note h = handle_other[OF this, of E ?r ?s1]
  have h': "handle_radio_request E (field kvs ''action'' (JString ''unknown'')) ?r ?s1 =
    (Inr (JObject [(''action'', JString ''UNKNOWN''), (''sessionId'', JString ''ble-bridge''),
        (''reason'', JString (''Unknown action: '' @ py_str E ?a))]),
     log_warning (''Radio request desconocido: '' @ py_str E ?a) (request_logged E ?a ?r ?s1))"
    using h a by simp
  have "on_radio_request_notify E data s =
      (Inr (), (log_warning (''Radio request desconocido: '' @ py_str E ?a)
                  (request_logged E ?a ?r ?s1))\<lparr>pending_commands :=
         pending_commands (log_warning (''Radio request desconocido: '' @ py_str E ?a)
                  (request_logged E ?a ?r ?s1)) @
           [JObject [(''action'', JString ''UNKNOWN''), (''sessionId'', JString ''ble-bridge''),
             (''reason'', JString (''Unknown action: '' @ py_str E ?a))]]\<rparr>)"
    by (rule radio_notify_parsed[OF assms(1,2) h'])
  then show ?thesis
    by (simp add: request_logged_def effect_defs py_str_def)
qed

theorem missing_action_defaults_to_unknown_witness:
  "pending_commands (snd (on_radio_request_notify (demo_env (exit_with 0 []) None) ''{}'' idle)) =
     [JObject [(''action'', JString ''UNKNOWN''), (''sessionId'', JString ''ble-bridge''),
        (''reason'', JString ''Unknown action: unknown'')]]
   \<and> executor_calls (trace (snd (on_radio_request_notify (demo_env (exit_with 0 []) None)
        ''{}'' idle))) = 0"
proof -
  let ?E = "demo_env (exit_with 0 []) None"
  have d: "bytes_decode ?E ''{}'' = Inr ''{}''" by (simp add: demo_defs)
  have l: "json_loads ?E ''{}'' = Inr (JObject [])" by (simp add: demo_defs)
  have m: "map_of ([] :: (string \<times> json) list) ''action'' = None" by simp
  have i: "pending_commands idle = []" "executor_calls (trace idle) = 0"
    by (simp_all add: idle_def)
  from missing_action_defaults_to_unknown[OF d l m, of idle] i show ?thesis by simp
qed

section \<open>Sending and draining\<close>

lemma send_command_not_connected:
  assumes "client s = None \<or> \<not> is_connected E (trace s)"
  shows "send_command E c s =
    (Inr (), s\<lparr>trace := trace s @ [Log ERROR ''No conectado - no se puede enviar comando'']\<rparr>)"
  using assms by (auto simp: send_command_def log_error_def emit_def)

lemma send_command_write_failed:
  assumes "client s \<noteq> None" and "is_connected E (trace s)"
    and "write_gatt_char E (trace s) SDN_CMD_WRITE_UUID (payload E c) True = Some e"
  shows "send_command E c s =
    (Inr (), log_error (''Error enviando comando: '' @ exn_str e)
       (suspend E (emit (GattWrite SDN_CMD_WRITE_UUID (payload E c) True) s)))"
proof -
  have g: "(client s = None \<or> \<not> is_connected E (trace s)) = False"
    using assms(1,2) by blast
  show ?thesis using assms(3)
    by (simp only: send_command_def g Let_def payload_def if_False option.case)
qed

lemma send_command_connected:
  assumes "client s \<noteq> None" and "is_connected E (trace s)"
  shows "send_command E c s =
    (Inr (), emit (write_log E c (trace s))
       (suspend E (emit (GattWrite SDN_CMD_WRITE_UUID (payload E c) True) s)))"
proof -
  let ?s1 = "suspend E (emit (GattWrite SDN_CMD_WRITE_UUID (payload E c) True) s)"
  have g: "(client s = None \<or> \<not> is_connected E (trace s)) = False"
    using assms(1,2) by blast
  show ?thesis
  proof (cases "write_gatt_char E (trace s) SDN_CMD_WRITE_UUID (payload E c) True")
    case (Some e)
    then show ?thesis
      by (simp only: send_command_def write_log_def g Let_def payload_def effect_defs
          if_False option.case)
  next
    case None
    show ?thesis
    proof (cases "dict_get c ''action'' (JString ''unknown'')")
      case (Inl e)
      then show ?thesis using None
        by (simp only: send_command_def write_log_def g Let_def payload_def effect_defs
            if_False option.case sum.case)
    next
      case (Inr a)
      then show ?thesis using None
        by (simp only: send_command_def write_log_def g Let_def payload_def effect_defs
            if_False option.case sum.case)
    qed
  qed
qed

lemma send_command_returns: "fst (send_command E c s) = Inr ()"
  using send_command_frame[of E c s] by blast

lemma send_command_eq: "send_command E c s = (Inr (), snd (send_command E c s))"
  using send_command_returns[of E c s] by (metis prod.collapse)

text \<open>With nothing to arrive, sending does not touch the queue.\<close>

lemma send_command_idle:
  assumes "inbox s = []"
  shows "snd (send_command E c (s\<lparr>pending_commands := p\<rparr>)) =
      (snd (send_command E c s))\<lparr>pending_commands := p\<rparr>"
    and "inbox (snd (send_command E c s)) = []"
    and "pending_commands (snd (send_command E c s)) = pending_commands s"
proof -
  let ?w = "GattWrite SDN_CMD_WRITE_UUID (payload E c) True"
  have j: "suspend E (emit ?w s) = emit ?w s"
    "suspend E (emit ?w (s\<lparr>pending_commands := p\<rparr>)) = emit ?w (s\<lparr>pending_commands := p\<rparr>)"
    using assms by (simp_all add: suspend_idle)
  show "snd (send_command E c (s\<lparr>pending_commands := p\<rparr>)) =
      (snd (send_command E c s))\<lparr>pending_commands := p\<rparr>"
  proof (cases "client s = None \<or> \<not> is_connected E (trace s)")
    case True
    then have "client (s\<lparr>pending_commands := p\<rparr>) = None
        \<or> \<not> is_connected E (trace (s\<lparr>pending_commands := p\<rparr>))"
      by simp
    from send_command_not_connected[OF this] send_command_not_connected[OF True]
    show ?thesis by simp
  next
    case False
    then have a: "client s \<noteq> None" "is_connected E (trace s)" by auto
    then have b: "client (s\<lparr>pending_commands := p\<rparr>) \<noteq> None"
      "is_connected E (trace (s\<lparr>pending_commands := p\<rparr>))" by auto
    from send_command_connected[OF a, of c] send_command_connected[OF b, of c]
    show ?thesis by (simp add: emit_def suspend_idle assms)
  qed
  show "inbox (snd (send_command E c s)) = []"
  proof (cases "client s = None \<or> \<not> is_connected E (trace s)")
    case True
    from send_command_not_connected[OF True] show ?thesis using assms by simp
  next
    case False
    then have a: "client s \<noteq> None" "is_connected E (trace s)" by auto
    from send_command_connected[OF a, of c] show ?thesis using assms by (simp add: j)
  qed
  show "pending_commands (snd (send_command E c s)) = pending_commands s"
  proof (cases "client s = None \<or> \<not> is_connected E (trace s)")
    case True
    from send_command_not_connected[OF True] show ?thesis by simp
  next
    case False
    then have a: "client s \<noteq> None" "is_connected E (trace s)" by auto
    from send_command_connected[OF a, of c] show ?thesis by (simp add: j)
  qed
qed

lemma drain_pending_Nil: "pending_commands s = [] \<Longrightarrow> drain_pending E s = (Inr (), s)"
  by (subst drain_pending.simps) simp

lemma drain_pending_Cons:
  assumes "pending_commands s = c # rest"
  shows "drain_pending E s =
    drain_pending E (snd (send_command E c (s\<lparr>pending_commands := rest\<rparr>)))"
proof -
  obtain s' where "send_command E c (s\<lparr>pending_commands := rest\<rparr>) = (Inr (), s')"
    using send_command_eq by blast
  then show ?thesis using assms
    by (subst drain_pending.simps) simp
qed

lemma drain_pending_returns:
  "fst (drain_pending E s) = Inr () \<and> pending_commands (snd (drain_pending E s)) = []"
proof (induction E s rule: drain_pending.induct)
  case (1 E s)
  show ?case
  proof (cases "pending_commands s")
    case Nil
    then show ?thesis by (simp add: drain_pending_Nil)
  next
    case (Cons c rest)
    have e: "send_command E c (s\<lparr>pending_commands := rest\<rparr>) =
      (Inr (), snd (send_command E c (s\<lparr>pending_commands := rest\<rparr>)))"
      by (rule send_command_eq)
    from "1.IH"[OF Cons e[symmetric] refl]
    show ?thesis by (simp add: drain_pending_Cons[OF Cons])
  qed
qed

lemma write_of_write_log [simp]: "write_of (write_log E c h) = []"
  by (simp add: write_log_def split: option.splits sum.splits)

lemma drain_pending_fold:
  assumes "inbox s = []"
  shows "snd (drain_pending E s) =
    fold (\<lambda>c st. snd (send_command E c st)) (pending_commands s) (s\<lparr>pending_commands := []\<rparr>)"
  using assms
proof (induction "pending_commands s" arbitrary: s)
  case Nil
  then show ?case by (simp add: drain_pending_Nil)
next
  case (Cons c rest)
  let ?s0 = "snd (send_command E c (s\<lparr>pending_commands := []\<rparr>))"
  let ?s1 = "snd (send_command E c (s\<lparr>pending_commands := rest\<rparr>))"
  have i: "inbox (s\<lparr>pending_commands := []\<rparr>) = []" using Cons.prems by simp
  have s1: "?s1 = ?s0\<lparr>pending_commands := rest\<rparr>"
    using send_command_idle(1)[OF i, of E c rest] by simp
  have s0: "inbox ?s0 = []" "pending_commands ?s0 = []"
    using send_command_idle(2,3)[OF i, of E c] by simp_all
  have "snd (drain_pending E ?s1) =
      fold (\<lambda>c st. snd (send_command E c st)) (pending_commands ?s1) (?s1\<lparr>pending_commands := []\<rparr>)"
    by (rule Cons.hyps(1)) (simp_all add: s1 s0)
  also have "pending_commands ?s1 = rest" by (simp add: s1)
  also have "?s1\<lparr>pending_commands := []\<rparr> = ?s0"
    using s0(2) by (simp add: s1)
  finally have "snd (drain_pending E ?s1) = fold (\<lambda>c st. snd (send_command E c st)) rest ?s0" .
  then show ?case
    using drain_pending_Cons[OF Cons.hyps(2)[symmetric], of E] Cons.hyps(2)[symmetric]
    by simp
qed

lemma drain_pending_writes:
  assumes "inbox s = []" and "client s \<noteq> None" and "\<forall>h. is_connected E h"
  shows "gatt_writes (trace (snd (drain_pending E s))) =
    gatt_writes (trace s) @ map (payload E) (pending_commands s)"
  using assms(1,2)
proof (induction "pending_commands s" arbitrary: s)
  case Nil
  then show ?case by (simp add: drain_pending_Nil)
next
  case (Cons c rest)
  let ?s' = "s\<lparr>pending_commands := rest\<rparr>"
  let ?s1 = "snd (send_command E c ?s')"
  have a: "client ?s' \<noteq> None" "is_connected E (trace ?s')"
    using Cons.prems assms(3) by simp_all
  have i: "inbox ?s' = []" using Cons.prems by simp
  have s1: "?s1 = emit (write_log E c (trace s))
      (emit (GattWrite SDN_CMD_WRITE_UUID (payload E c) True) ?s')"
    using send_command_connected[OF a, of c] i by (simp add: suspend_idle)
  have "gatt_writes (trace (snd (drain_pending E ?s1))) =
      gatt_writes (trace ?s1) @ map (payload E) (pending_commands ?s1)"
    by (rule Cons.hyps(1)) (simp_all add: s1 Cons.prems)
  then have "gatt_writes (trace (snd (drain_pending E ?s1))) =
      gatt_writes (trace s) @ payload E c # map (payload E) rest"
    by (simp add: s1)
  then show ?case
    using drain_pending_Cons[OF Cons.hyps(2)[symmetric], of E] Cons.hyps(2)[symmetric]
    by simp
qed

lemma drain_pending_write_bound:
  "length (gatt_writes (trace (snd (drain_pending E s)))) \<le>
     length (gatt_writes (trace s)) + length (pending_commands s) + arrivals_left s"
proof (induction E s rule: drain_pending.induct)
  case (1 E s)
  show ?case
  proof (cases "pending_commands s")
    case Nil
    then show ?thesis by (simp add: drain_pending_Nil)
  next
    case (Cons c rest)
    let ?s' = "s\<lparr>pending_commands := rest\<rparr>"
    let ?s1 = "snd (send_command E c ?s')"
    have e: "send_command E c ?s' = (Inr (), ?s1)" by (rule send_command_eq)
    obtain new t where f: "pending_commands ?s1 = pending_commands ?s' @ new"
      "length new + arrivals_left ?s1 \<le> arrivals_left ?s'"
      "trace ?s1 = trace ?s' @ t" "length (gatt_writes t) \<le> 1"
      using send_command_frame[of E c ?s'] by blast
    have "length (gatt_writes (trace (snd (drain_pending E ?s1)))) \<le>
        length (gatt_writes (trace ?s1)) + length (pending_commands ?s1) + arrivals_left ?s1"
      by (rule "1.IH"[OF Cons e[symmetric] refl])
    also have "\<dots> \<le> length (gatt_writes (trace s)) + length (pending_commands s) + arrivals_left s"
      using f Cons by (simp add: arrivals_left_def)
    finally show ?thesis by (simp add: drain_pending_Cons[OF Cons])
  qed
qed

lemma drain_pending_trace_extends:
  "\<exists>u. trace (snd (drain_pending E s)) = trace s @ u"
proof (induction E s rule: drain_pending.induct)
  case (1 E s)
  show ?case
  proof (cases "pending_commands s")
    case Nil
    then show ?thesis by (simp add: drain_pending_Nil)
  next
    case (Cons c rest)
    let ?s' = "s\<lparr>pending_commands := rest\<rparr>"
    let ?s1 = "snd (send_command E c ?s')"
    have e: "send_command E c ?s' = (Inr (), ?s1)" by (rule send_command_eq)
    obtain t where t: "trace ?s1 = trace ?s' @ t"
      using send_command_frame[of E c ?s'] by blast
    obtain u where "trace (snd (drain_pending E ?s1)) = trace ?s1 @ u"
      using "1.IH"[OF Cons e[symmetric] refl] by blast
    then have "trace (snd (drain_pending E s)) = trace s @ (t @ u)"
      using t by (simp add: drain_pending_Cons[OF Cons])
    then show ?thesis by blast
  qed
qed

text \<open>
  C8. Without a client, or with a client that is not connected, \<open>send_command\<close> returns
  normally, writes one error log record and nothing else: no GATT write, no change of
  the controller. On a live connection a write that raises is attempted once, the error
  is logged as the last effect of the call, and \<open>send_command\<close> returns normally.
\<close>

theorem send_command_best_effort:
  "(client s = None \<or> \<not> is_connected E (trace s) \<longrightarrow>
      send_command E c s =
        (Inr (), s\<lparr>trace := trace s @ [Log ERROR ''No conectado - no se puede enviar comando'']\<rparr>)
      \<and> gatt_writes (trace (snd (send_command E c s))) = gatt_writes (trace s))
   \<and> (client s \<noteq> None \<and> is_connected E (trace s)
        \<and> write_gatt_char E (trace s) SDN_CMD_WRITE_UUID (payload E c) True = Some e \<longrightarrow>
      fst (send_command E c s) = Inr ()
      \<and> (\<exists>t. trace (snd (send_command E c s)) =
            trace s @ [GattWrite SDN_CMD_WRITE_UUID (payload E c) True] @ t
              @ [Log ERROR (''Error enviando comando: '' @ exn_str e)]
          \<and> gatt_writes t = [])
      \<and> gatt_writes (trace (snd (send_command E c s))) = gatt_writes (trace s) @ [payload E c])"
proof (intro conjI impI)
  assume a: "client s = None \<or> \<not> is_connected E (trace s)"
  show "send_command E c s =
      (Inr (), s\<lparr>trace := trace s @ [Log ERROR ''No conectado - no se puede enviar comando'']\<rparr>)"
    by (rule send_command_not_connected[OF a])
  then show "gatt_writes (trace (snd (send_command E c s))) = gatt_writes (trace s)"
    by simp
next
  assume a: "client s \<noteq> None \<and> is_connected E (trace s)
        \<and> write_gatt_char E (trace s) SDN_CMD_WRITE_UUID (payload E c) True = Some e"
  let ?w = "GattWrite SDN_CMD_WRITE_UUID (payload E c) True"
  have eq: "send_command E c s =
      (Inr (), log_error (''Error enviando comando: '' @ exn_str e) (suspend E (emit ?w s)))"
    using a by (intro send_command_write_failed) simp_all
  obtain t where t: "trace (suspend E (emit ?w s)) = trace (emit ?w s) @ t" "gatt_writes t = []"
    using suspend_frame[of E "emit ?w s"] by blast
  show "fst (send_command E c s) = Inr ()" by (simp add: eq)
  have tr: "trace (snd (send_command E c s)) =
      trace s @ [?w] @ t @ [Log ERROR (''Error enviando comando: '' @ exn_str e)]"
    using t(1) by (simp add: eq log_error_def)
  with t(2) show "\<exists>t. trace (snd (send_command E c s)) =
            trace s @ [?w] @ t @ [Log ERROR (''Error enviando comando: '' @ exn_str e)]
          \<and> gatt_writes t = []"
    by blast
  show "gatt_writes (trace (snd (send_command E c s))) = gatt_writes (trace s) @ [payload E c]"
    using t(2) by (simp add: tr)
qed

theorem send_command_best_effort_witness:
  "send_command (demo_env (exit_with 0 []) None) bt_ready (idle\<lparr>client := None\<rparr>) =
     (Inr (), idle\<lparr>client := None,
        trace := [Log ERROR ''No conectado - no se puede enviar comando'']\<rparr>)
   \<and> fst (send_command (demo_env (exit_with 0 []) (Some (Exn ''BleakError'' ''Not connected'')))
        bt_ready idle) = Inr ()
   \<and> trace (snd (send_command (demo_env (exit_with 0 []) (Some (Exn ''BleakError'' ''Not connected'')))
        bt_ready idle)) =
      [GattWrite SDN_CMD_WRITE_UUID
         (payload (demo_env (exit_with 0 []) (Some (Exn ''BleakError'' ''Not connected''))) bt_ready)
         True,
       Log ERROR ''Error enviando comando: Not connected'']"
proof -
  let ?E = "demo_env (exit_with 0 []) None"
  let ?F = "demo_env (exit_with 0 []) (Some (Exn ''BleakError'' ''Not connected''))"
  have 1: "client (idle\<lparr>client := None\<rparr>) = None \<or> \<not> is_connected ?E (trace (idle\<lparr>client := None\<rparr>))"
    by simp
  have 2: "client idle \<noteq> None \<and> is_connected ?F (trace idle)
      \<and> write_gatt_char ?F (trace idle) SDN_CMD_WRITE_UUID (payload ?F bt_ready) True
          = Some (Exn ''BleakError'' ''Not connected'')"
    by (simp add: demo_defs)
  have 3: "suspend ?F (emit ev idle) = emit ev idle" for ev
    by (simp add: suspend_def idle_def emit_def)
  from send_command_best_effort[of "idle\<lparr>client := None\<rparr>" ?E bt_ready] 1
  have a: "send_command ?E bt_ready (idle\<lparr>client := None\<rparr>) =
     (Inr (), idle\<lparr>client := None,
        trace := [Log ERROR ''No conectado - no se puede enviar comando'']\<rparr>)"
    by (simp add: idle_def)
  from send_command_best_effort[of idle ?F bt_ready "Exn ''BleakError'' ''Not connected''"] 2
  have b: "fst (send_command ?F bt_ready idle) = Inr ()" by blast
  have c: "trace (snd (send_command ?F bt_ready idle)) =
      [GattWrite SDN_CMD_WRITE_UUID (payload ?F bt_ready) True,
       Log ERROR ''Error enviando comando: Not connected'']"
    using send_command_write_failed[of idle ?F bt_ready "Exn ''BleakError'' ''Not connected''"] 2
    by (simp add: 3 log_error_def) (simp add: idle_def)
  from a b c show ?thesis by blast
qed

text \<open>
  C9. In the inner loop of \<open>run_loop\<close> an item is popped before it is sent: the send
  runs in a state whose queue no longer holds it. When the write of the first item
  raises, the history of the whole drain begins with that one write attempt and, after
  what the callbacks did meanwhile, the error log record; the state after the send has
  the rest of the queue, followed by whatever notifications enqueued meanwhile, and the
  loop goes on from that state. With no notification arriving, the drain is exactly:
  the failed attempt and its error record, then the sends of the rest of the queue, in
  order, from a state in which the item is in no queue; so the item is never sent
  again. On a connection that stays up the payloads written by the drain are those of
  the queued items, one write each, the failed one included. The drain ends with an
  empty queue.
\<close>

theorem pop_before_send_loses_failed_item:
  assumes "pending_commands s = c # rest"
    and "client s \<noteq> None" and "is_connected E (trace s)"
    and "write_gatt_char E (trace s) SDN_CMD_WRITE_UUID (payload E c) True = Some e"
  shows "drain_pending E s =
      drain_pending E (snd (send_command E c (s\<lparr>pending_commands := rest\<rparr>)))
    \<and> (\<exists>new t.
          pending_commands (snd (send_command E c (s\<lparr>pending_commands := rest\<rparr>))) = rest @ new
        \<and> trace (snd (send_command E c (s\<lparr>pending_commands := rest\<rparr>))) =
            trace s @ [GattWrite SDN_CMD_WRITE_UUID (payload E c) True] @ t
              @ [Log ERROR (''Error enviando comando: '' @ exn_str e)]
        \<and> gatt_writes t = [])
    \<and> (inbox s = [] \<longrightarrow>
          snd (send_command E c (s\<lparr>pending_commands := rest\<rparr>)) =
            s\<lparr>pending_commands := rest,
              trace := trace s @ [GattWrite SDN_CMD_WRITE_UUID (payload E c) True,
                                  Log ERROR (''Error enviando comando: '' @ exn_str e)]\<rparr>)
    \<and> pending_commands (snd (drain_pending E s)) = []
    \<and> (inbox s = [] \<longrightarrow>
          length (gatt_writes (trace (snd (drain_pending E s)))) \<le>
            length (gatt_writes (trace s)) + length (c # rest))
    \<and> (\<exists>t u. trace (snd (drain_pending E s)) =
            trace s @ [GattWrite SDN_CMD_WRITE_UUID (payload E c) True] @ t
              @ [Log ERROR (''Error enviando comando: '' @ exn_str e)] @ u
          \<and> gatt_writes t = [])
    \<and> (inbox s = [] \<longrightarrow>
          snd (drain_pending E s) =
            fold (\<lambda>c st. snd (send_command E c st)) rest
              (s\<lparr>pending_commands := [],
                 trace := trace s @ [GattWrite SDN_CMD_WRITE_UUID (payload E c) True,
                                     Log ERROR (''Error enviando comando: '' @ exn_str e)]\<rparr>))
    \<and> (inbox s = [] \<and> (\<forall>h. is_connected E h) \<longrightarrow>
          gatt_writes (trace (snd (drain_pending E s))) =
            gatt_writes (trace s) @ payload E c # map (payload E) rest)"
proof -
  let ?s' = "s\<lparr>pending_commands := rest\<rparr>"
  let ?w = "GattWrite SDN_CMD_WRITE_UUID (payload E c) True"
  let ?err = "Log ERROR (''Error enviando comando: '' @ exn_str e)"
  have eq: "send_command E c ?s' = (Inr (), log_error (''Error enviando comando: '' @ exn_str e)
       (suspend E (emit ?w ?s')))"
    using assms(2-4) by (intro send_command_write_failed) simp_all
  obtain new t where f: "pending_commands (suspend E (emit ?w ?s')) = pending_commands (emit ?w ?s') @ new"
    "trace (suspend E (emit ?w ?s')) = trace (emit ?w ?s') @ t" "gatt_writes t = []"
    using suspend_frame[of E "emit ?w ?s'"] by blast
  have 1: "drain_pending E s = drain_pending E (snd (send_command E c ?s'))"
    by (rule drain_pending_Cons[OF assms(1)])
  have p: "pending_commands (snd (send_command E c ?s')) = rest @ new"
    and tr: "trace (snd (send_command E c ?s')) = trace s @ [?w] @ t @ [?err]"
    using f by (simp_all add: eq log_error_def)
  with f(3) have 2: "\<exists>new t. pending_commands (snd (send_command E c ?s')) = rest @ new
        \<and> trace (snd (send_command E c ?s')) = trace s @ [?w] @ t @ [?err]
        \<and> gatt_writes t = []"
    by blast
  have 3: "snd (send_command E c ?s') = s\<lparr>pending_commands := rest, trace := trace s @ [?w, ?err]\<rparr>"
    if "inbox s = []"
    using that by (simp add: eq log_error_def emit_def suspend_idle)
  have 4: "pending_commands (snd (drain_pending E s)) = []"
    using drain_pending_returns by blast
  have 5: "length (gatt_writes (trace (snd (drain_pending E s)))) \<le>
            length (gatt_writes (trace s)) + length (c # rest)"
    if "inbox s = []"
    using drain_pending_write_bound[of E s] that assms(1) by (simp add: arrivals_left_def)
  have 6: "\<exists>t u. trace (snd (drain_pending E s)) = trace s @ [?w] @ t @ [?err] @ u
          \<and> gatt_writes t = []"
  proof -
    obtain u where "trace (snd (drain_pending E (snd (send_command E c ?s')))) =
        trace (snd (send_command E c ?s')) @ u"
      using drain_pending_trace_extends by blast
    then have "trace (snd (drain_pending E s)) = trace s @ [?w] @ t @ [?err] @ u"
      by (simp add: 1 tr)
    with f(3) show ?thesis by blast
  qed
  have 7: "snd (drain_pending E s) =
      fold (\<lambda>c st. snd (send_command E c st)) rest
        (s\<lparr>pending_commands := [], trace := trace s @ [?w, ?err]\<rparr>)"
    if i: "inbox s = []"
  proof -
    let ?s0 = "s\<lparr>pending_commands := []\<rparr>"
    have "send_command E c ?s0 = (Inr (), log_error (''Error enviando comando: '' @ exn_str e)
       (suspend E (emit ?w ?s0)))"
      using assms(2-4) by (intro send_command_write_failed) simp_all
    then have "snd (send_command E c ?s0) = s\<lparr>pending_commands := [], trace := trace s @ [?w, ?err]\<rparr>"
      using i by (simp add: log_error_def emit_def suspend_idle)
    then show ?thesis
      using drain_pending_fold[OF i, of E] assms(1) by simp
  qed
  have 8: "gatt_writes (trace (snd (drain_pending E s))) =
      gatt_writes (trace s) @ payload E c # map (payload E) rest"
    if "inbox s = [] \<and> (\<forall>h. is_connected E h)"
    using drain_pending_writes[of s E] that assms(1,2) by simp
  from 1 2 3 4 5 6 7 8 show ?thesis by blast
qed

theorem pop_before_send_loses_failed_item_witness:
  "snd (send_command (demo_env (exit_with 0 []) (Some (Exn ''BleakError'' ''Not connected'')))
        bt_ready (idle\<lparr>pending_commands := [wifi_off]\<rparr>)) =
     idle\<lparr>pending_commands := [wifi_off],
       trace := [GattWrite SDN_CMD_WRITE_UUID
           (payload (demo_env (exit_with 0 []) (Some (Exn ''BleakError'' ''Not connected''))) bt_ready)
           True,
         Log ERROR ''Error enviando comando: Not connected'']\<rparr>
   \<and> pending_commands (snd (drain_pending
        (demo_env (exit_with 0 []) (Some (Exn ''BleakError'' ''Not connected'')))
        (idle\<lparr>pending_commands := [bt_ready, wifi_off]\<rparr>))) = []
   \<and> trace (snd (drain_pending
        (demo_env (exit_with 0 []) (Some (Exn ''BleakError'' ''Not connected'')))
        (idle\<lparr>pending_commands := [bt_ready, wifi_off]\<rparr>))) =
       [GattWrite SDN_CMD_WRITE_UUID
          (payload (demo_env (exit_with 0 []) (Some (Exn ''BleakError'' ''Not connected''))) bt_ready)
          True,
        Log ERROR ''Error enviando comando: Not connected'',
        GattWrite SDN_CMD_WRITE_UUID
          (payload (demo_env (exit_with 0 []) (Some (Exn ''BleakError'' ''Not connected''))) wifi_off)
          True,
        Log ERROR ''Error enviando comando: Not connected'']
   \<and> gatt_writes (trace (snd (drain_pending
        (demo_env (exit_with 0 []) (Some (Exn ''BleakError'' ''Not connected'')))
        (idle\<lparr>pending_commands := [bt_ready, wifi_off]\<rparr>)))) =
       [payload (demo_env (exit_with 0 []) (Some (Exn ''BleakError'' ''Not connected''))) bt_ready,
        payload (demo_env (exit_with 0 []) (Some (Exn ''BleakError'' ''Not connected''))) wifi_off]"
proof -
  let ?F = "demo_env (exit_with 0 []) (Some (Exn ''BleakError'' ''Not connected''))"
  let ?s = "idle\<lparr>pending_commands := [bt_ready, wifi_off]\<rparr>"
  have h: "pending_commands ?s = bt_ready # [wifi_off]" "client ?s \<noteq> None"
    "is_connected ?F (trace ?s)"
    "write_gatt_char ?F (trace ?s) SDN_CMD_WRITE_UUID (payload ?F bt_ready) True
       = Some (Exn ''BleakError'' ''Not connected'')"
    by (simp_all add: demo_defs)
  have i: "inbox ?s = []" "trace ?s = []" by (simp_all add: idle_def)
  have k: "inbox ?s = [] \<and> (\<forall>h. is_connected ?F h)" by (simp add: demo_defs)
  note th = pop_before_send_loses_failed_item[OF h]
  note a = th[THEN conjunct2, THEN conjunct2, THEN conjunct1, rule_format, OF i(1)]
  note b = th[THEN conjunct2, THEN conjunct2, THEN conjunct2, THEN conjunct1]
  note f = th[THEN conjunct2, THEN conjunct2, THEN conjunct2, THEN conjunct2, THEN conjunct2,
      THEN conjunct2, THEN conjunct1, rule_format, OF i(1)]
  note g = th[THEN conjunct2, THEN conjunct2, THEN conjunct2, THEN conjunct2, THEN conjunct2,
      THEN conjunct2, THEN conjunct2, rule_format, OF k]
  from a have 1: "snd (send_command ?F bt_ready (idle\<lparr>pending_commands := [wifi_off]\<rparr>)) =
     idle\<lparr>pending_commands := [wifi_off],
       trace := [GattWrite SDN_CMD_WRITE_UUID (payload ?F bt_ready) True,
         Log ERROR ''Error enviando comando: Not connected'']\<rparr>"
    by (simp add: i(2))
  from f have 2: "trace (snd (drain_pending ?F ?s)) =
       [GattWrite SDN_CMD_WRITE_UUID (payload ?F bt_ready) True,
        Log ERROR ''Error enviando comando: Not connected'',
        GattWrite SDN_CMD_WRITE_UUID (payload ?F wifi_off) True,
        Log ERROR ''Error enviando comando: Not connected'']"
    by (simp add: send_command_def suspend_def effect_defs emit_def payload_def demo_defs)
  from g have 3: "gatt_writes (trace (snd (drain_pending ?F ?s))) =
       [payload ?F bt_ready, payload ?F wifi_off]"
    by (simp add: i(2))
  from 1 b 2 3 show ?thesis by blast
qed

text \<open>
  C7, as stated, fails: the drain is not one atomic step that takes what is queued now.
  It pops one item, awaits its send, and only then looks at the queue again. Here the
  queue holds one confirmation, and a radio request arrives while its write is awaited:
  the same drain also sends the confirmation of that request, which was not queued when
  the drain began.
\<close>

theorem drain_not_atomic_counterexample:
  "pending_commands (idle\<lparr>pending_commands := [bt_ready],
                          inbox := [[RadioRequestNotify ''{}'']]\<rparr>) = [bt_ready]
   \<and> gatt_writes (trace (snd (drain_pending (demo_env (exit_with 0 []) None)
          (idle\<lparr>pending_commands := [bt_ready], inbox := [[RadioRequestNotify ''{}'']]\<rparr>)))) =
       [payload (demo_env (exit_with 0 []) None) bt_ready,
        payload (demo_env (exit_with 0 []) None) unknown_reply]
   \<and> unknown_reply \<noteq> bt_ready"
proof -
  let ?E = "demo_env (exit_with 0 []) None"
  let ?s = "idle\<lparr>pending_commands := [bt_ready], inbox := [[RadioRequestNotify ''{}'']]\<rparr>"
  let ?s' = "?s\<lparr>pending_commands := []\<rparr>"
  let ?s1 = "snd (send_command ?E bt_ready ?s')"
  let ?w = "GattWrite SDN_CMD_WRITE_UUID (payload ?E bt_ready) True"
  have conn: "\<forall>h. is_connected ?E h" by (simp add: demo_env_def)
  have a: "client ?s' \<noteq> None" "is_connected ?E (trace ?s')"
    by (simp_all add: demo_defs)
  have s1: "pending_commands ?s1 = [unknown_reply]" "inbox ?s1 = []" "client ?s1 \<noteq> None"
    "gatt_writes (trace ?s1) = [payload ?E bt_ready]"
    using send_command_connected[OF a, of bt_ready]
    by (simp_all add: suspend_def on_radio_request_notify_def handle_radio_request_def
        demo_defs unknown_reply_def py_str_def request_logged_def effect_defs emit_def)
  have d: "drain_pending ?E ?s = drain_pending ?E ?s1"
    by (rule drain_pending_Cons) simp
  have w: "gatt_writes (trace (snd (drain_pending ?E ?s1))) =
      gatt_writes (trace ?s1) @ map (payload ?E) (pending_commands ?s1)"
    by (rule drain_pending_writes[OF s1(2,3) conn])
  have "gatt_writes (trace (snd (drain_pending ?E ?s))) =
      [payload ?E bt_ready, payload ?E unknown_reply]"
    unfolding d w s1(1,4) by simp
  then show ?thesis by (simp add: unknown_reply_def bt_ready_def)
qed

text \<open>
  C7, amended. The drain always returns normally and leaves the queue empty. It takes
  the items from the front one at a time, each handed to \<open>send_command\<close> before the
  next is taken, and what a notification enqueues meanwhile goes behind the rest. When
  nothing arrives during the drain it sends exactly the items queued at the start, in
  insertion order, and on a connection that stays up these are the payloads written.
  Draining an empty queue changes nothing, however often it is repeated.
\<close>

theorem drain_pending_fifo:
  "fst (drain_pending E s) = Inr ()
   \<and> pending_commands (snd (drain_pending E s)) = []
   \<and> (pending_commands s = [] \<longrightarrow>
         drain_pending E s = (Inr (), s)
       \<and> drain_pending E (snd (drain_pending E s)) = (Inr (), s))
   \<and> (\<forall>c rest. pending_commands s = c # rest \<longrightarrow>
         drain_pending E s =
           drain_pending E (snd (send_command E c (s\<lparr>pending_commands := rest\<rparr>)))
       \<and> (\<exists>new. pending_commands (snd (send_command E c (s\<lparr>pending_commands := rest\<rparr>)))
             = rest @ new))
   \<and> (inbox s = [] \<longrightarrow>
         snd (drain_pending E s) =
           fold (\<lambda>c st. snd (send_command E c st)) (pending_commands s)
             (s\<lparr>pending_commands := []\<rparr>))
   \<and> (inbox s = [] \<and> client s \<noteq> None \<and> (\<forall>h. is_connected E h) \<longrightarrow>
         gatt_writes (trace (snd (drain_pending E s))) =
           gatt_writes (trace s) @ map (payload E) (pending_commands s))"
proof -
  have 1: "fst (drain_pending E s) = Inr ()" "pending_commands (snd (drain_pending E s)) = []"
    using drain_pending_returns by blast+
  have 2: "drain_pending E s = (Inr (), s) \<and> drain_pending E (snd (drain_pending E s)) = (Inr (), s)"
    if "pending_commands s = []"
    using that by (simp add: drain_pending_Nil)
  have 3: "drain_pending E s =
           drain_pending E (snd (send_command E c (s\<lparr>pending_commands := rest\<rparr>)))
       \<and> (\<exists>new. pending_commands (snd (send_command E c (s\<lparr>pending_commands := rest\<rparr>)))
             = rest @ new)"
    if "pending_commands s = c # rest" for c rest
  proof -
    obtain new where "pending_commands (snd (send_command E c (s\<lparr>pending_commands := rest\<rparr>)))
        = pending_commands (s\<lparr>pending_commands := rest\<rparr>) @ new"
      using send_command_frame[of E c "s\<lparr>pending_commands := rest\<rparr>"] by blast
    then show ?thesis using drain_pending_Cons[OF that, of E] by simp
  qed
  have 4: "snd (drain_pending E s) =
           fold (\<lambda>c st. snd (send_command E c st)) (pending_commands s)
             (s\<lparr>pending_commands := []\<rparr>)"
    if "inbox s = []"
    by (rule drain_pending_fold[OF that])
  have 5: "gatt_writes (trace (snd (drain_pending E s))) =
           gatt_writes (trace s) @ map (payload E) (pending_commands s)"
    if "inbox s = [] \<and> client s \<noteq> None \<and> (\<forall>h. is_connected E h)"
    using that by (intro drain_pending_writes) simp_all
  from 1 2 3 4 5 show ?thesis by blast
qed

theorem drain_pending_fifo_witness:
  "gatt_writes (trace (snd (drain_pending (demo_env (exit_with 0 []) None)
       (idle\<lparr>pending_commands := [bt_ready, wifi_off, unknown_reply]\<rparr>)))) =
     [payload (demo_env (exit_with 0 []) None) bt_ready,
      payload (demo_env (exit_with 0 []) None) wifi_off,
      payload (demo_env (exit_with 0 []) None) unknown_reply]
   \<and> pending_commands (snd (drain_pending (demo_env (exit_with 0 []) None)
       (idle\<lparr>pending_commands := [bt_ready, wifi_off, unknown_reply]\<rparr>))) = []
   \<and> drain_pending (demo_env (exit_with 0 []) None) idle = (Inr (), idle)
   \<and> drain_pending (demo_env (exit_with 0 []) None)
        (snd (drain_pending (demo_env (exit_with 0 []) None) idle)) = (Inr (), idle)"
proof -
  let ?E = "demo_env (exit_with 0 []) None"
  let ?s = "idle\<lparr>pending_commands := [bt_ready, wifi_off, unknown_reply]\<rparr>"
  have h: "inbox ?s = [] \<and> client ?s \<noteq> None \<and> (\<forall>h. is_connected ?E h)"
    by (simp add: demo_defs)
  have e: "pending_commands idle = []" by (simp add: idle_def)
  note th = drain_pending_fifo[of ?E ?s]
  note a = th[THEN conjunct2, THEN conjunct2, THEN conjunct2, THEN conjunct2, THEN conjunct2,
      rule_format, OF h]
  note b = th[THEN conjunct2, THEN conjunct1]
  note c = drain_pending_fifo[of ?E idle, THEN conjunct2, THEN conjunct2, THEN conjunct1,
      rule_format, OF e]
  from a have "gatt_writes (trace (snd (drain_pending ?E ?s))) =
      [payload ?E bt_ready, payload ?E wifi_off, payload ?E unknown_reply]"
    by (simp add: idle_def)
  with b c show ?thesis by blast
qed

end
